theory Spec2Isabelle
  imports Complex_Main "HOL-Library.Multiset"
begin

section \<open>GL bonus reconciler: shallow embedding\<close>

text \<open>
  The development follows the Python sources under \<^verbatim>\<open>src/app/engine\<close>:
  \<^verbatim>\<open>biaProcessor.py\<close> (accumulator, conversion, calculation),
  \<^verbatim>\<open>biaRecovery.py\<close> (checkpoint store) and \<^verbatim>\<open>biaController.py\<close>
  (orchestration). Exceptions are values of \<open>py_error\<close>; a function that may raise
  returns \<open>py_error + 'a\<close>. Module-level globals are fields of explicit state records.
\<close>

subsection \<open>Python exceptions and small string helpers\<close>

datatype py_error =
    ValueError
  | RuntimeError
  | KeyError
  | TypeError
  | AssertionError
  | TimeoutError
  | ResponseError
  | OtherError

text \<open>An account argument is \<^verbatim>\<open>Union[str, int]\<close>.\<close>

datatype acc = AccInt int | AccStr string

definition digit_char :: "nat \<Rightarrow> char" where
  "digit_char d = char_of (48 + d)"

fun str_nat :: "nat \<Rightarrow> string" where
  "str_nat n = (if n < 10 then [digit_char n] else str_nat (n div 10) @ [digit_char (n mod 10)])"

declare str_nat.simps [simp del]

text \<open>\<^verbatim>\<open>str(i)\<close> for a Python int.\<close>

definition str_int :: "int \<Rightarrow> string" where
  "str_int i = (if i < 0 then CHR ''-'' # str_nat (nat (- i)) else str_nat (nat i))"

fun str_acc :: "acc \<Rightarrow> string" where
  "str_acc (AccInt i) = str_int i"
| "str_acc (AccStr s) = s"

definition is_digit :: "char \<Rightarrow> bool" where
  "is_digit c = ((48::nat) \<le> of_char c \<and> (of_char c :: nat) \<le> 57)"

text \<open>
  \<^verbatim>\<open>s.isnumeric()\<close>: non-empty and every character numeric. Strings are byte strings
  here, so the numeric characters are the ASCII digits.
\<close>

definition isnumeric :: "string \<Rightarrow> bool" where
  "isnumeric s = (s \<noteq> [] \<and> list_all is_digit s)"

subsection \<open>The accumulator (\<^verbatim>\<open>biaProcessor._accum\<close>)\<close>

text \<open>
  \<^verbatim>\<open>_accum\<close> is a dict from dataset kind to a dict from country to either the data
  itself (\<^verbatim>\<open>None\<close> or a DataFrame) or, when accounts are used, a dict from account
  to data. A DataFrame is a value of the type parameter \<open>'d\<close>. When the slot of a country
  holds a DataFrame and an account is given, Python falls into pandas' column access
  (\<^verbatim>\<open>acc in df\<close>, \<^verbatim>\<open>df[acc] = data\<close>, \<^verbatim>\<open>df[acc]\<close>); these three operations
  of the library are the fields of \<open>frame_ops\<close>.
\<close>

datatype 'd slot = Leaf "'d option" | Node "acc \<Rightarrow> 'd option option"

type_synonym 'd accum = "string \<Rightarrow> (string \<Rightarrow> 'd slot option) option"

record 'd frame_ops =
  contains :: "'d \<Rightarrow> acc \<Rightarrow> bool"
  setitem :: "'d \<Rightarrow> acc \<Rightarrow> 'd option \<Rightarrow> py_error + 'd"
  getitem :: "'d \<Rightarrow> acc \<Rightarrow> py_error + 'd"

definition accum_kinds :: "string list" where
  "accum_kinds = [''fbl3n_data'', ''text_summs'', ''check_text_summs'', ''kona_data'',
     ''kote_data'', ''loc_bonus_data'', ''glob_bonus_data'', ''glob_bonus_calcs'',
     ''loc_bonus_calcs'', ''glob_agreement_comparison'', ''loc_agreement_comparison'',
     ''loc_conditions'', ''fs10n_data'', ''final_summary'', ''yearly_acc_summ'',
     ''period_overview'', ''info'']"

text \<open>The module-level initial value of \<^verbatim>\<open>_accum\<close>: every kind mapped to an empty dict.\<close>

definition accum_init :: "'d accum" where
  "accum_init = (\<lambda>k. if k \<in> set accum_kinds then Some Map.empty else None)"

definition bad_account :: "acc option \<Rightarrow> bool" where
  "bad_account a = (case a of None \<Rightarrow> False | Some x \<Rightarrow> \<not> isnumeric (str_acc x))"

text \<open>
  \<^verbatim>\<open>store_to_accum(data, country, key, acc)\<close>, lines 264-284. The checks come in
  the source's order: the account's format, then \<^verbatim>\<open>country in _accum[key]\<close> (a
  \<^verbatim>\<open>KeyError\<close> for an unknown kind), then the account's membership in the slot.
\<close>

definition store_to_accum ::
  "'d frame_ops \<Rightarrow> 'd option \<Rightarrow> string \<Rightarrow> string \<Rightarrow> acc option \<Rightarrow> 'd accum \<Rightarrow> py_error + 'd accum"
where
  "store_to_accum ops data country key a A =
     (if bad_account a then Inl ValueError
      else case A key of
        None \<Rightarrow> Inl KeyError
      | Some kd \<Rightarrow>
          (case a of
             None \<Rightarrow>
               (case kd country of
                  Some _ \<Rightarrow> Inl RuntimeError
                | None \<Rightarrow> Inr (A(key \<mapsto> kd(country \<mapsto> Leaf data))))
           | Some x \<Rightarrow>
               (case kd country of
                  None \<Rightarrow> Inr (A(key \<mapsto> kd(country \<mapsto> Node (Map.empty(x \<mapsto> data)))))
                | Some (Node m) \<Rightarrow>
                    (if m x \<noteq> None then Inl RuntimeError
                     else Inr (A(key \<mapsto> kd(country \<mapsto> Node (m(x \<mapsto> data))))))
                | Some (Leaf None) \<Rightarrow> Inl TypeError
                | Some (Leaf (Some df)) \<Rightarrow>
                    (if contains ops df x then Inl RuntimeError
                     else case setitem ops df x data of
                       Inl e \<Rightarrow> Inl e
                     | Inr df' \<Rightarrow> Inr (A(key \<mapsto> kd(country \<mapsto> Leaf (Some df'))))))))"

text \<open>
  \<^verbatim>\<open>get_from_accum(country, key, acc)\<close>, lines 315-323. Without an account the
  slot is returned as it is, be it data or the per-account dict.
\<close>

definition get_from_accum ::
  "'d frame_ops \<Rightarrow> string \<Rightarrow> string \<Rightarrow> acc option \<Rightarrow> 'd accum \<Rightarrow> py_error + 'd slot"
where
  "get_from_accum ops country key a A =
     (if bad_account a then Inl ValueError
      else case A key of
        None \<Rightarrow> Inl KeyError
      | Some kd \<Rightarrow>
          (case kd country of
             None \<Rightarrow> Inl KeyError
           | Some s \<Rightarrow>
               (case a of
                  None \<Rightarrow> Inr s
                | Some x \<Rightarrow>
                    (case s of
                       Node m \<Rightarrow> (case m x of None \<Rightarrow> Inl KeyError | Some d \<Rightarrow> Inr (Leaf d))
                     | Leaf None \<Rightarrow> Inl TypeError
                     | Leaf (Some df) \<Rightarrow>
                         (case getitem ops df x of Inl e \<Rightarrow> Inl e | Inr col \<Rightarrow> Inr (Leaf (Some col)))))))"

text \<open>A key (country, kind, account) has been stored when its slot holds it.\<close>

definition stored :: "'d accum \<Rightarrow> string \<Rightarrow> string \<Rightarrow> acc option \<Rightarrow> bool" where
  "stored A country key a =
     (case A key of
        None \<Rightarrow> False
      | Some kd \<Rightarrow>
          (case kd country of
             None \<Rightarrow> False
           | Some (Leaf _) \<Rightarrow> a = None
           | Some (Node m) \<Rightarrow> (case a of None \<Rightarrow> False | Some x \<Rightarrow> m x \<noteq> None)))"

text \<open>A toy DataFrame for concrete runs: the list of its column labels.\<close>

definition label_ops :: "acc list frame_ops" where
  "label_ops = \<lparr> contains = (\<lambda>df x. x \<in> set df),
                 setitem = (\<lambda>df x v. Inr (x # df)),
                 getitem = (\<lambda>df x. if x \<in> set df then Inr [x] else Inl KeyError) \<rparr>"

text \<open>An accumulator after one per-account store, as \<^verbatim>\<open>process_fs10n_data\<close> leaves it.\<close>

definition accum_example :: "acc list accum" where
  "accum_example = accum_init(''fs10n_data'' \<mapsto>
      Map.empty(''SK'' \<mapsto> Node (Map.empty(AccStr ''66791580'' \<mapsto> Some [AccStr ''Period'']))))"

subsection \<open>The checkpoint store (\<^verbatim>\<open>biaRecovery.py\<close>)\<close>

text \<open>
  A checkpoint value is a bool or a string; a stage with per-account flags holds a dict
  from \<^verbatim>\<open>str(acc)\<close> to such values. The recovery document maps a country to its
  stage dict. \<open>rec_file\<close> is the content of the recovery files on disk, by path, as
  the parsed JSON document (\<open>None\<close>: the file does not exist); \<open>rec_path\<close> and
  \<open>ent_states\<close> are the module's globals \<^verbatim>\<open>_rec_path\<close> and
  \<^verbatim>\<open>_ent_states\<close>.
\<close>

datatype sval = VBool bool | VStr string

datatype state_val = Flag sval | PerAcc "string \<Rightarrow> sval option"

type_synonym cstate = "string \<Rightarrow> state_val option"

type_synonym states_doc = "string \<Rightarrow> cstate option"

record rec_store =
  rec_file :: "string \<Rightarrow> states_doc option"
  rec_path :: "string option"
  ent_states :: "states_doc option"

text \<open>The entries of \<^verbatim>\<open>rules.yaml\<close> the modelled code reads.\<close>

record rule =
  company_code :: string
  accounts :: "acc list"
  local_currency :: string
  accountants :: "(string \<times> bool) list"

type_synonym rules = "string \<Rightarrow> rule option"


text \<open>The defaults \<^verbatim>\<open>reset_states\<close> writes for one country, lines 170-198.\<close>

definition default_flags :: "(string \<times> state_val) list" where
  "default_flags =
     [(''reconciled'', Flag (VBool False)),
      (''db_updated'', Flag (VBool False)),
      (''info'', Flag (VBool False)),
      (''fbl3n_data_exported'', Flag (VBool False)),
      (''fbl3n_data_processed'', Flag (VBool False)),
      (''se16_no_kona_data'', Flag (VBool False)),
      (''se16_kona_data_exported'', Flag (VBool False)),
      (''se16_kote_data_exported'', Flag (VBool False)),
      (''se16_kona_data_processed'', Flag (VBool False)),
      (''se16_kote_data_processed'', Flag (VBool False)),
      (''zsd25_glob_data_exported'', Flag (VBool False)),
      (''zsd25_glob_data_processed'', Flag (VBool False)),
      (''zsd25_glob_data_calculated'', Flag (VBool False)),
      (''zsd25_loc_data_exported'', Flag (VBool False)),
      (''zsd25_loc_data_processed'', Flag (VBool False)),
      (''zsd25_loc_data_calculated'', Flag (VBool False)),
      (''zsd25_no_glob_data'', Flag (VBool False)),
      (''yearly_summary_retrieved'', Flag (VBool False)),
      (''user_warning'', Flag (VStr [])),
      (''user_error'', Flag (VStr []))]"

definition per_acc_false :: "acc list \<Rightarrow> string \<Rightarrow> sval option" where
  "per_acc_false accs = map_of (map (\<lambda>a. (str_acc a, VBool False)) accs)"

definition default_cstate :: "acc list \<Rightarrow> cstate" where
  "default_cstate accs =
     (map_of default_flags)
       (''text_summary_retrieved'' \<mapsto> PerAcc (per_acc_false accs),
        ''fs10n_data_exported'' \<mapsto> PerAcc (per_acc_false accs),
        ''fs10n_data_processed'' \<mapsto> PerAcc (per_acc_false accs))"




text \<open>\<^verbatim>\<open>get_state(country, key, acc)\<close>, lines 272-277.\<close>

definition get_state :: "string \<Rightarrow> string \<Rightarrow> acc option \<Rightarrow> rec_store \<Rightarrow> py_error + state_val" where
  "get_state country key a w =
     (case ent_states w of
        None \<Rightarrow> Inl TypeError
      | Some doc \<Rightarrow>
          (case doc country of
             None \<Rightarrow> Inl KeyError
           | Some cs \<Rightarrow>
               (case cs key of
                  None \<Rightarrow> Inl KeyError
                | Some v \<Rightarrow>
                    (case a of
                       None \<Rightarrow> Inr v
                     | Some x \<Rightarrow>
                         (case v of
                            PerAcc m \<Rightarrow>
                              (case m (str_acc x) of
                                 None \<Rightarrow> Inl KeyError
                               | Some s \<Rightarrow> Inr (Flag s))
                          | Flag _ \<Rightarrow> Inl TypeError)))))"

text \<open>Python's truth value of a checkpoint value, as \<^verbatim>\<open>if rec.get_state(...)\<close> reads it.\<close>

fun truthy :: "state_val \<Rightarrow> bool" where
  "truthy (Flag (VBool b)) = b"
| "truthy (Flag (VStr s)) = (s \<noteq> [])"
| "truthy (PerAcc m) = (m \<noteq> Map.empty)"

text \<open>
  \<^verbatim>\<open>save_state(country, key, val, acc)\<close>, lines 233-247: the in-memory document is
  changed first, then the whole document is written to the file.
\<close>

definition save_state ::
  "string \<Rightarrow> string \<Rightarrow> sval \<Rightarrow> acc option \<Rightarrow> rec_store \<Rightarrow> (py_error + unit) \<times> rec_store" where
  "save_state country key val a w =
     (case ent_states w of
        None \<Rightarrow> (Inl TypeError, w)
      | Some doc \<Rightarrow>
          (case doc country of
             None \<Rightarrow> (Inl KeyError, w)
           | Some cs \<Rightarrow>
               (let upd =
                  (case a of
                     None \<Rightarrow> Inr (cs(key \<mapsto> Flag val))
                   | Some x \<Rightarrow>
                       (case cs key of
                          None \<Rightarrow> Inl KeyError
                        | Some (Flag _) \<Rightarrow> Inl TypeError
                        | Some (PerAcc m) \<Rightarrow> Inr (cs(key \<mapsto> PerAcc (m(str_acc x \<mapsto> val))))))
                in case upd of
                     Inl e \<Rightarrow> (Inl e, w)
                   | Inr cs' \<Rightarrow>
                       (let doc' = doc(country \<mapsto> cs'); w1 = w\<lparr>ent_states := Some doc'\<rparr>
                        in case rec_path w1 of
                             None \<Rightarrow> (Inl TypeError, w1)
                           | Some p \<Rightarrow> (Inr (), w1\<lparr>rec_file := (rec_file w1)(p \<mapsto> doc')\<rparr>)))))"



text \<open>
  The document \<^verbatim>\<open>reset_states\<close> is expected to build: every listed country mapped
  to the defaults for its configured accounts.
\<close>

definition default_doc :: "string list \<Rightarrow> rules \<Rightarrow> states_doc" where
  "default_doc cs rs =
     (\<lambda>c. if c \<in> set cs then Some (default_cstate (accounts (the (rs c)))) else None)"

subsection \<open>Exchange rates (\<^verbatim>\<open>biaPortal.py\<close>)\<close>

text \<open>
  Dates are proleptic Gregorian ordinals (\<^verbatim>\<open>date.toordinal()\<close>); 2022-08-01 is
  738368. Amounts and rates, \<^verbatim>\<open>float\<close> in the source, are rationals. The portal is
  the function \<open>http\<close>: what \<^verbatim>\<open>requests.post\<close> does for a date, a target currency
  and a timeout: a read timeout, a response that is not ok, a response with its items
  (\<^verbatim>\<open>CurFrom\<close>, \<^verbatim>\<open>MidRate\<close>), or any other failure.
\<close>

datatype http_response = ReadTimeout | NotOk | Ok "(string \<times> rat) list" | Broken

record fx_env =
  today :: int
  http :: "int \<Rightarrow> string \<Rightarrow> nat \<Rightarrow> http_response"

definition allowed_currs :: "string list" where
  "allowed_currs = [''GBP'', ''EUR'', ''CHF'', ''CZK'', ''HUF'', ''PLN'', ''NOK'', ''SEK'',
     ''RUB'', ''DKK'']"

fun first_rate :: "(string \<times> rat) list \<Rightarrow> string \<Rightarrow> rat option" where
  "first_rate [] from_curr = None"
| "first_rate ((cur_from, mid) # items) from_curr =
     (if cur_from = from_curr then Some mid else first_rate items from_curr)"

text \<open>\<^verbatim>\<open>get_exchange_rate(valid_on, to_curr, from_curr, resp_timeout)\<close>, lines 63-120.\<close>

definition get_exchange_rate ::
  "fx_env \<Rightarrow> int \<Rightarrow> string \<Rightarrow> string \<Rightarrow> nat \<Rightarrow> py_error + rat option" where
  "get_exchange_rate env valid_on to_curr from_curr resp_timeout =
     (if \<not> (738368 < valid_on \<and> valid_on < today env + 1) then Inl ValueError
      else if to_curr \<notin> set allowed_currs then Inl ValueError
      else if from_curr \<notin> set allowed_currs then Inl ValueError
      else if from_curr = to_curr then Inr (Some 1)
      else case http env valid_on to_curr resp_timeout of
             ReadTimeout \<Rightarrow> Inl TimeoutError
           | NotOk \<Rightarrow> Inl ResponseError
           | Ok items \<Rightarrow> Inr (first_rate items from_curr)
           | Broken \<Rightarrow> Inl OtherError)"

subsection \<open>The exchange-rate phase of \<^verbatim>\<open>reconcile\<close> (\<^verbatim>\<open>biaController.py\<close>)\<close>

text \<open>A function body ends by raising or by returning.\<close>

datatype 'a exit = Raise py_error | Return 'a

text \<open>
  \<^verbatim>\<open>user_params\<close>: \<open>up_fx_rate\<close> is \<open>None\<close> when the dict has no key
  \<^verbatim>\<open>"fx_rate"\<close>, and \<open>Some None\<close> when the key holds \<^verbatim>\<open>None\<close>.
\<close>

record user_params =
  up_company_code :: "string option"
  up_email :: string
  up_fx_rate :: "rat option option"

text \<open>
  What \<^verbatim>\<open>reconcile\<close> derives from the clock and the calendar before it asks for a
  rate (lines 1213-1230), and \<^verbatim>\<open>strftime("%d-%b-%Y")\<close>.
\<close>

record recon_times =
  fx_rate_date :: int
  is_uplusone :: bool
  recon_date_fmt :: string
  recon_time_fmt :: string
  strftime :: "int \<Rightarrow> string"

definition msg_not_available :: "recon_times \<Rightarrow> string" where
  "msg_not_available t =
     ''The exchange rate was not available on the portal for the given day ''
       @ recon_date_fmt t @ '' at '' @ recon_time_fmt t @ ''.''"

definition warn_msg_upone :: "recon_times \<Rightarrow> string" where
  "warn_msg_upone t =
     msg_not_available t
       @ '' Please, send a trigger mail with a manually entered FX rate to retry the reconciliation.''"

definition warn_msg_nonupone :: "recon_times \<Rightarrow> int \<Rightarrow> string" where
  "warn_msg_nonupone t prev_day =
     msg_not_available t @ '' An exchange rate as per '' @ strftime t prev_day
       @ '' was used instead. If you wish to use a different rate, please, send a trigger mail''
       @ '' with a manually entered FX rate to retry the reconciliation.''"

text \<open>
  Lines 1237-1246: the request for the reconciliation date. An exception raised inside
  the \<^verbatim>\<open>TimeoutError\<close> handler leaves \<^verbatim>\<open>reconcile\<close>.
\<close>

definition first_attempt :: "fx_env \<Rightarrow> recon_times \<Rightarrow> string \<Rightarrow> bool exit + rat option" where
  "first_attempt env t loc_curr =
     (case get_exchange_rate env (fx_rate_date t) loc_curr ''EUR'' 15 of
        Inr r \<Rightarrow> Inr r
      | Inl TimeoutError \<Rightarrow>
          (case get_exchange_rate env (fx_rate_date t) loc_curr ''EUR'' 60 of
             Inl e \<Rightarrow> Inl (Raise e)
           | Inr r \<Rightarrow> Inr r)
      | Inl ResponseError \<Rightarrow> Inr None
      | Inl _ \<Rightarrow> Inl (Return False))"

text \<open>
  Lines 1258-1273: the loop \<^verbatim>\<open>while fx_rate is None and past_days <= MAX_PAST_DAYS\<close>
  with \<^verbatim>\<open>MAX_PAST_DAYS = 5\<close>, entered with \<^verbatim>\<open>fx_rate\<close> \<^verbatim>\<open>None\<close>. The arguments
  are \<^verbatim>\<open>past_days\<close> and the last \<^verbatim>\<open>prev_day\<close>; the result is the rate found, if
  any, with \<^verbatim>\<open>prev_day\<close>. \<^verbatim>\<open>past_days\<close> is incremented at the top of the body and
  once more in the \<^verbatim>\<open>ResponseError\<close> handler.
\<close>

function walk_back ::
  "fx_env \<Rightarrow> recon_times \<Rightarrow> string \<Rightarrow> int \<Rightarrow> int \<Rightarrow> bool exit + (rat option \<times> int)" where
  "walk_back env t loc_curr past_days prev_day =
     (if past_days \<le> 5 then
        (let prev = fx_rate_date t - past_days in
         case get_exchange_rate env prev loc_curr ''EUR'' 15 of
           Inr (Some r) \<Rightarrow> Inr (Some r, prev)
         | Inr None \<Rightarrow> walk_back env t loc_curr (past_days + 1) prev
         | Inl TimeoutError \<Rightarrow>
             (case get_exchange_rate env (fx_rate_date t) loc_curr ''EUR'' 60 of
                Inl e \<Rightarrow> Inl (Raise e)
              | Inr (Some r) \<Rightarrow> Inr (Some r, prev)
              | Inr None \<Rightarrow> walk_back env t loc_curr (past_days + 1) prev)
         | Inl ResponseError \<Rightarrow> walk_back env t loc_curr (past_days + 1 + 1) prev
         | Inl _ \<Rightarrow> Inl (Return False))
      else Inr (None, prev_day))"
  by pat_completeness auto
termination
  by (relation "measure (\<lambda>(env, t, loc_curr, past_days, prev_day). nat (6 - past_days))") auto

declare walk_back.simps [simp del]

text \<open>Saving a message and going on, or leaving with the exception of \<^verbatim>\<open>save_state\<close>.\<close>

definition save_then ::
  "string \<Rightarrow> string \<Rightarrow> string \<Rightarrow> (bool exit + rat) \<Rightarrow> rec_store \<Rightarrow> (bool exit + rat) \<times> rec_store" where
  "save_then cntry key msg after w =
     (case save_state cntry key (VStr msg) None w of
        (Inl e, w') \<Rightarrow> (Inl (Raise e), w')
      | (Inr _, w') \<Rightarrow> (after, w'))"

text \<open>
  Lines 1229-1299 of \<^verbatim>\<open>reconcile\<close>: the result is an early exit (\<^verbatim>\<open>return False\<close>
  or an exception) or the rate with which the calculations go on. The rest of
  \<^verbatim>\<open>reconcile\<close> writes neither \<^verbatim>\<open>"user_warning"\<close> nor \<^verbatim>\<open>"user_error"\<close>.
\<close>

definition reconcile_fx ::
  "fx_env \<Rightarrow> recon_times \<Rightarrow> user_params option \<Rightarrow> string \<Rightarrow> string \<Rightarrow> rec_store
     \<Rightarrow> (bool exit + rat) \<times> rec_store" where
  "reconcile_fx env t up cntry loc_curr w =
     (case (case up of
              None \<Rightarrow> first_attempt env t loc_curr
            | Some u \<Rightarrow>
                (case up_fx_rate u of
                   None \<Rightarrow> first_attempt env t loc_curr
                 | Some v \<Rightarrow> Inr v)) of
        Inl ex \<Rightarrow> (Inl ex, w)
      | Inr (Some r) \<Rightarrow> (Inr r, w)
      | Inr None \<Rightarrow>
          (if \<not> is_uplusone t then
             (case walk_back env t loc_curr 1 (fx_rate_date t) of
                Inl ex \<Rightarrow> (Inl ex, w)
              | Inr (None, prev_day) \<Rightarrow>
                  save_then cntry ''user_error'' (msg_not_available t) (Inl (Return False)) w
              | Inr (Some r, prev_day) \<Rightarrow>
                  save_then cntry ''user_warning'' (warn_msg_nonupone t prev_day) (Inr r) w)
           else save_then cntry ''user_error'' (warn_msg_upone t) (Inl (Return False)) w))"

subsection \<open>\<^verbatim>\<open>send_notification\<close> up to the composed message\<close>

datatype template = TemplWarning | TemplError | TemplGeneral

record notification =
  templ :: template
  inserted_msg :: state_val
  with_report :: bool

text \<open>\<^verbatim>\<open>msg != ""\<close> for a value read from the checkpoint store.\<close>

definition not_blank :: "state_val \<Rightarrow> bool" where
  "not_blank v = (v \<noteq> Flag (VStr []))"

text \<open>Lines 1534-1560: the warning and the error message \<^verbatim>\<open>send_notification\<close> works with.\<close>

definition notification_msgs ::
  "rules option \<Rightarrow> string option \<Rightarrow> user_params option \<Rightarrow> rec_store
     \<Rightarrow> py_error + (state_val \<times> state_val) option" where
  "notification_msgs rs cntry up w =
     (case up of
        None \<Rightarrow>
          (case rs of
             None \<Rightarrow> Inl TypeError
           | Some rules \<Rightarrow>
               (case cntry of
                  None \<Rightarrow> Inl KeyError
                | Some c \<Rightarrow>
                    (case rules c of
                       None \<Rightarrow> Inl KeyError
                     | Some r \<Rightarrow>
                         (if length (filter snd (accountants r)) = 0 then Inr None
                          else case get_state c ''user_warning'' None w of
                            Inl e \<Rightarrow> Inl e
                          | Inr warn_msg \<Rightarrow>
                              (case get_state c ''user_error'' None w of
                                 Inl e \<Rightarrow> Inl e
                               | Inr err_msg \<Rightarrow> Inr (Some (warn_msg, err_msg)))))))
      | Some u \<Rightarrow>
          (if up_company_code u = None
           then Inr (Some (Flag (VStr []),
                  Flag (VStr ''The company code you've provided is incorrect!'')))
           else if up_fx_rate u = Some None
           then Inr (Some (Flag (VStr []),
                  Flag (VStr ''The FX rate you've provided is incorrect!'')))
           else Inr (Some (Flag (VStr []), Flag (VStr [])))))"

text \<open>
  \<^verbatim>\<open>send_notification\<close>, lines 1526-1600, up to the message handed to the mail
  module: \<open>Inr None\<close> when nothing is sent, \<open>Inl AssertionError\<close> when the assertion
  of line 1564 fails. Reading the template file and SMTP are outside the model.
\<close>

definition send_notification ::
  "bool \<Rightarrow> rules option \<Rightarrow> string option \<Rightarrow> user_params option \<Rightarrow> rec_store
     \<Rightarrow> py_error + notification option" where
  "send_notification send rs cntry up w =
     (if \<not> send then Inr None
      else case notification_msgs rs cntry up w of
        Inl e \<Rightarrow> Inl e
      | Inr None \<Rightarrow> Inr None
      | Inr (Some (warn_msg, err_msg)) \<Rightarrow>
          (if \<not> \<not> (not_blank warn_msg \<and> not_blank err_msg) then Inl AssertionError
           else if not_blank warn_msg
           then Inr (Some \<lparr> templ = TemplWarning, inserted_msg = warn_msg, with_report = True \<rparr>)
           else if not_blank err_msg
           then Inr (Some \<lparr> templ = TemplError, inserted_msg = err_msg, with_report = False \<rparr>)
           else Inr (Some \<lparr> templ = TemplGeneral, inserted_msg = Flag (VStr []),
                  with_report = True \<rparr>)))"

text \<open>
  Concrete inputs for the exchange-rate phase: a country with local currency CZK, its
  store as \<^verbatim>\<open>initialize\<close> leaves it, and three portals: one that has published a
  rate only two days before 2023-03-15 (ordinal 738594), one that has published a rate
  the day before, and one that has none at all. 2023-04-03 (738613) is the first working
  day of April, the day after period end; its rate date is 2023-03-31 (738610).
\<close>

definition rules_cz :: rules where
  "rules_cz =
     Map.empty(''Czechia'' \<mapsto>
       \<lparr> company_code = ''1054'', accounts = [AccInt 66791580],
         local_currency = ''CZK'', accountants = [(''accountant@ledvance.com'', True)] \<rparr>)"

definition store_cz :: rec_store where
  "store_cz =
     \<lparr> rec_file = Map.empty(''recovery.json'' \<mapsto> default_doc [''Czechia''] rules_cz),
       rec_path = Some ''recovery.json'',
       ent_states = Some (default_doc [''Czechia''] rules_cz) \<rparr>"

definition env_two_days_ago :: fx_env where
  "env_two_days_ago =
     \<lparr> today = 738594,
       http = (\<lambda>d cur tmo. if d = 738592 then Ok [(''EUR'', 2563 / 100)] else NotOk) \<rparr>"

definition env_day_before :: fx_env where
  "env_day_before =
     \<lparr> today = 738594,
       http = (\<lambda>d cur tmo. if d = 738593 then Ok [(''EUR'', 2563 / 100)] else NotOk) \<rparr>"

definition env_no_rates :: fx_env where
  "env_no_rates = \<lparr> today = 738613, http = (\<lambda>d cur tmo. NotOk) \<rparr>"

definition times_mid_month :: recon_times where
  "times_mid_month =
     \<lparr> fx_rate_date = 738594, is_uplusone = False, recon_date_fmt = ''15-Mar-2023'',
       recon_time_fmt = ''09:00:00 AM'', strftime = (\<lambda>d. ''14-Mar-2023'') \<rparr>"

definition times_uplusone :: recon_times where
  "times_uplusone =
     \<lparr> fx_rate_date = 738610, is_uplusone = True, recon_date_fmt = ''31-Mar-2023'',
       recon_time_fmt = ''09:00:00 AM'', strftime = (\<lambda>d. ''31-Mar-2023'') \<rparr>"

text \<open>
  Two runs over the same store. In the first, on 2023-03-15, the portal has the rate of
  the day before. The second, resumed from the store the first one left, runs on the day
  after period end with no rate on the portal.
\<close>

definition store_after_first_run :: rec_store where
  "store_after_first_run =
     snd (reconcile_fx env_day_before times_mid_month None ''Czechia'' ''CZK'' store_cz)"

definition store_after_second_run :: rec_store where
  "store_after_second_run =
     snd (reconcile_fx env_no_rates times_uplusone None ''Czechia'' ''CZK'' store_after_first_run)"

subsection \<open>Amounts\<close>

text \<open>
  A \<^verbatim>\<open>float64\<close> cell is an exact rational here, or \<open>None\<close> for \<^verbatim>\<open>NaN\<close> /
  \<^verbatim>\<open>pd.NA\<close>. Arithmetic propagates the missing value; a sum over a column skips it
  (\<^verbatim>\<open>skipna\<close>). \<^verbatim>\<open>round(2)\<close> rounds the hundredfold to the nearest integer, a
  tie to the even one, as numpy does.
\<close>

type_synonym amount = "rat option"

definition amt_add :: "amount \<Rightarrow> amount \<Rightarrow> amount" where
  "amt_add a b = (case a of None \<Rightarrow> None | Some x \<Rightarrow> (case b of None \<Rightarrow> None | Some y \<Rightarrow> Some (x + y)))"

definition amt_sub :: "amount \<Rightarrow> amount \<Rightarrow> amount" where
  "amt_sub a b = (case a of None \<Rightarrow> None | Some x \<Rightarrow> (case b of None \<Rightarrow> None | Some y \<Rightarrow> Some (x - y)))"

definition amt_mul :: "amount \<Rightarrow> amount \<Rightarrow> amount" where
  "amt_mul a b = (case a of None \<Rightarrow> None | Some x \<Rightarrow> (case b of None \<Rightarrow> None | Some y \<Rightarrow> Some (x * y)))"

definition na0 :: "amount \<Rightarrow> rat" where
  "na0 a = (case a of None \<Rightarrow> 0 | Some x \<Rightarrow> x)"

definition nansum :: "amount list \<Rightarrow> rat" where
  "nansum xs = sum_list (map na0 xs)"

definition fillna0 :: "amount \<Rightarrow> amount" where
  "fillna0 a = Some (na0 a)"

definition round_half_even :: "rat \<Rightarrow> int" where
  "round_half_even x =
     (let f = \<lfloor>x\<rfloor>; d = x - of_int f
      in if d < 1 / 2 then f else if 1 / 2 < d then f + 1 else if even f then f else f + 1)"

definition round2 :: "rat \<Rightarrow> rat" where
  "round2 x = of_int (round_half_even (x * 100)) / 100"

definition amt_round2 :: "amount \<Rightarrow> amount" where
  "amt_round2 a = map_option round2 a"

text \<open>\<^verbatim>\<open>x != 0\<close> on a float cell: \<^verbatim>\<open>NaN != 0\<close> is true.\<close>

definition nonzero :: "amount \<Rightarrow> bool" where
  "nonzero a = (a \<noteq> Some 0)"


subsection \<open>Text summaries of a GL account (\<^verbatim>\<open>db.get_text_summary\<close>)\<close>

text \<open>
  One row per (Text, Agreement, Category, Condition, Customer, Note) with the summed
  amount \<^verbatim>\<open>LC_Amount_Sum\<close>. A dict that the code iterates is an association list in
  insertion order; \<^verbatim>\<open>d[k]\<close> is \<open>map_of\<close>.
\<close>

record txt_row =
  t_text :: string
  t_agreement :: "int option"
  t_category :: "string option"
  t_condition :: "string option"
  t_customer :: "int option"
  t_note :: "string option"
  t_amount :: amount

subsection \<open>\<^verbatim>\<open>calculate_le_bonus_data\<close>\<close>

text \<open>
  A row of the local-entity extract: the columns the calculation reads, and \<open>le_rest\<close>
  for the other selected columns, which are carried along unchanged.
\<close>

record 'r le_row =
  le_agreement :: int
  le_open_accruals :: amount
  le_currency :: string
  le_rest :: 'r

text \<open>
  A row of the result: the source row, the added columns \<^verbatim>\<open>Corr_to_LC\<close>,
  \<^verbatim>\<open>LC_Open_Accr\<close> and \<^verbatim>\<open>Difference\<close>, and one column per reconciled account.
\<close>

record 'r le_calc =
  src_row :: "'r le_row"
  corr_to_lc :: amount
  lc_open_accr :: amount
  acc_sums :: "(string \<times> amount) list"
  difference :: amount

text \<open>
  \<^verbatim>\<open>drop_duplicates(subset = ...)\<close>, and \<^verbatim>\<open>unique()\<close> with the identity as
  key: the first row of every key stays.
\<close>

fun drop_duplicates :: "('a \<Rightarrow> 'k) \<Rightarrow> 'k list \<Rightarrow> 'a list \<Rightarrow> 'a list" where
  "drop_duplicates f seen [] = []"
| "drop_duplicates f seen (x # xs) =
     (if f x \<in> set seen then drop_duplicates f seen xs
      else x # drop_duplicates f (f x # seen) xs)"

text \<open>
  \<^verbatim>\<open>txt_summ.groupby("Agreement").sum()\<close> left-merged on the agreement: the summed
  amount of the agreement's rows, or a missing value when the agreement has no row.
\<close>

definition merged_sum :: "txt_row list \<Rightarrow> int \<Rightarrow> amount" where
  "merged_sum rows a =
     (if Some a \<in> t_agreement ` set rows
      then Some (nansum (map t_amount (filter (\<lambda>r. t_agreement r = Some a) rows)))
      else None)"

text \<open>The body of the loop over \<^verbatim>\<open>txt_summs.keys()\<close>, lines 1174-1186.\<close>

definition add_account :: "string \<times> txt_row list \<Rightarrow> 'r le_calc list \<Rightarrow> 'r le_calc list" where
  "add_account kv tab =
     map (\<lambda>c. let v = fillna0 (merged_sum (snd kv) (le_agreement (src_row c)))
              in c\<lparr>acc_sums := acc_sums c @ [(fst kv, v)],
                   difference := amt_add (difference c) v\<rparr>) tab"

text \<open>Lines 1160-1170: the currency correction of the deduplicated rows.\<close>

definition currency_corrections :: "string \<Rightarrow> rat \<Rightarrow> 'r le_row list \<Rightarrow> 'r le_calc list" where
  "currency_corrections loc_curr ex_rate deduped =
     (let subset0 = map (\<lambda>r. \<lparr> src_row = r, corr_to_lc = Some 0, lc_open_accr = None,
                               acc_sums = [], difference = Some 0 \<rparr>) deduped;
          subset1 =
            (if ex_rate \<noteq> 1 then
               map (\<lambda>c. if le_currency (src_row c) \<noteq> loc_curr
                        then c\<lparr>corr_to_lc :=
                               amt_sub (amt_mul (le_open_accruals (src_row c)) (Some ex_rate))
                                 (le_open_accruals (src_row c))\<rparr>
                        else c) subset0
             else subset0)
      in map (\<lambda>c. c\<lparr>lc_open_accr :=
                       amt_add (le_open_accruals (src_row c)) (corr_to_lc c)\<rparr>) subset1)"

text \<open>\<^verbatim>\<open>calculate_le_bonus_data(txt_summs, le_data, loc_curr, ex_rate)\<close>, lines 1137-1191.\<close>

definition calculate_le_bonus_data ::
  "(string \<times> txt_row list) list \<Rightarrow> 'r le_row list \<Rightarrow> string \<Rightarrow> rat \<Rightarrow> 'r le_calc list" where
  "calculate_le_bonus_data txt_summs le_data loc_curr ex_rate =
     (let deduped = drop_duplicates le_agreement [] le_data;
          subset2 = currency_corrections loc_curr ex_rate deduped;
          subset3 = fold add_account txt_summs subset2
      in map (\<lambda>c. c\<lparr>difference :=
                       amt_round2 (amt_sub (difference c) (lc_open_accr c))\<rparr>) subset3)"

subsection \<open>\<^verbatim>\<open>check_agreement_states\<close>\<close>

record checked_row =
  row :: txt_row
  status :: string

definition missing_ids :: "txt_row \<Rightarrow> bool" where
  "missing_ids r =
     (t_condition r = None \<or> t_category r = None \<or> t_customer r = None \<or> t_agreement r = None)"

text \<open>\<^verbatim>\<open>Agreement not in [...]\<close> in a query: a missing agreement is in no list.\<close>

definition not_in :: "int option \<Rightarrow> int list \<Rightarrow> bool" where
  "not_in a xs = (case a of None \<Rightarrow> True | Some x \<Rightarrow> x \<notin> set xs)"

text \<open>
  \<^verbatim>\<open>sort_values("Status", ascending = False)\<close>, with the statuses ranked as Python
  compares the three strings: \<^verbatim>\<open>"x" > "CHECK" > ""\<close>. Rows of equal status keep
  their order here; pandas' default sort does not promise that.
\<close>

definition status_rank :: "string \<Rightarrow> nat" where
  "status_rank s = (if s = ''x'' then 0 else if s = ''CHECK'' then 1 else 2)"

text \<open>Lines 1323-1346 for the rows of one account.\<close>

definition check_rows :: "int list \<Rightarrow> txt_row list \<Rightarrow> checked_row list" where
  "check_rows open_agreements rows =
     (let data = map (\<lambda>r. \<lparr> row = r, status = [] \<rparr>) rows;
          data1 = map (\<lambda>c. if missing_ids (row c) \<and> nonzero (t_amount (row c))
                           then c\<lparr>status := ''x''\<rparr> else c) data;
          data2 = map (\<lambda>c. if nonzero (t_amount (row c))
                                \<and> not_in (t_agreement (row c)) open_agreements
                                \<and> status c \<noteq> ''x''
                           then c\<lparr>status := ''CHECK''\<rparr> else c) data1
      in sort_key (\<lambda>c. status_rank (status c)) data2)"

text \<open>
  \<^verbatim>\<open>check_agreement_states(txt_summs, le_bon, hq_bon)\<close>, lines 1319-1350; the two
  extracts enter by their \<^verbatim>\<open>Agreement\<close> columns, \<^verbatim>\<open>hq_bon\<close> may be \<^verbatim>\<open>None\<close>.
\<close>

definition check_agreement_states ::
  "(string \<times> txt_row list) list \<Rightarrow> int list \<Rightarrow> int list option
     \<Rightarrow> (string \<times> checked_row list) list" where
  "check_agreement_states txt_summs le_bon hq_bon =
     map (\<lambda>kv.
            let open_agreements =
                  drop_duplicates (\<lambda>x. x) [] le_bon
                    @ (case hq_bon of None \<Rightarrow> [] | Some hq \<Rightarrow> drop_duplicates (\<lambda>x. x) [] hq)
            in (fst kv, check_rows open_agreements (snd kv))) txt_summs"

subsection \<open>\<^verbatim>\<open>summarize\<close>\<close>












text \<open>An agreement in EUR with an open accrual of 1000.00.\<close>

definition le_row_example :: "unit le_row" where
  "le_row_example =
     \<lparr> le_agreement = 12345678, le_open_accruals = Some 1000, le_currency = ''EUR'',
       le_rest = () \<rparr>"

text \<open>
  The flag as the specification words it: \<^verbatim>\<open>x\<close> for a non-zero line with a missing
  identification field, else \<^verbatim>\<open>CHECK\<close> for a non-zero line whose agreement is not
  open, else none. It is compared with \<open>check_rows\<close> below.
\<close>

definition flag_by_claim :: "int list \<Rightarrow> txt_row \<Rightarrow> checked_row" where
  "flag_by_claim opn r =
     \<lparr> row = r,
       status = (if nonzero (t_amount r) \<and> missing_ids r then ''x''
                 else if nonzero (t_amount r) \<and> not_in (t_agreement r) opn then ''CHECK''
                 else []) \<rparr>"

text \<open>Three GL lines of one account: no agreement, an unknown agreement, and amount 0.\<close>

definition txt_rows_example :: "txt_row list" where
  "txt_rows_example =
     [\<lparr> t_text = ''ZB01;B1;1000123;99999999'', t_agreement = Some 99999999,
        t_category = Some ''B1'', t_condition = Some ''ZB01'', t_customer = Some 1000123,
        t_note = None, t_amount = Some 250 \<rparr>,
      \<lparr> t_text = ''bonus Q1'', t_agreement = None, t_category = None, t_condition = None,
        t_customer = None, t_note = None, t_amount = Some 250 \<rparr>,
      \<lparr> t_text = ''(blank)'', t_agreement = None, t_category = None, t_condition = None,
        t_customer = None, t_note = None, t_amount = Some 0 \<rparr>]"





subsection \<open>Python string methods used by the conversion\<close>

text \<open>\<^verbatim>\<open>s.split(sep)\<close> for a separator of one character.\<close>

fun split_on :: "char \<Rightarrow> string \<Rightarrow> string list" where
  "split_on sep [] = [[]]"
| "split_on sep (c # cs) =
     (if c = sep then [] # split_on sep cs
      else (case split_on sep cs of
              [] \<Rightarrow> [[c]]
            | t # ts \<Rightarrow> (c # t) # ts))"

text \<open>
  The whitespace of \<^verbatim>\<open>str.strip()\<close> among the characters below 256: tab to carriage
  return, the four separators 28-31, the space, NEL and the no-break space.
\<close>

definition is_space :: "char \<Rightarrow> bool" where
  "is_space c =
     ((of_char c :: nat) \<in> {9, 10, 11, 12, 13, 28, 29, 30, 31, 32, 133, 160})"

definition strip_with :: "(char \<Rightarrow> bool) \<Rightarrow> string \<Rightarrow> string" where
  "strip_with p s = rev (dropWhile p (rev (dropWhile p s)))"

text \<open>\<^verbatim>\<open>s.strip()\<close> and \<^verbatim>\<open>s.strip(" ")\<close>.\<close>

definition py_strip :: "string \<Rightarrow> string" where
  "py_strip s = strip_with is_space s"

definition strip_blanks :: "string \<Rightarrow> string" where
  "strip_blanks s = strip_with (\<lambda>c. c = CHR '' '') s"

text \<open>\<^verbatim>\<open>s.rstrip("-")\<close> and \<^verbatim>\<open>s.endswith("-")\<close>.\<close>

definition rstrip_minus :: "string \<Rightarrow> string" where
  "rstrip_minus s = rev (dropWhile (\<lambda>c. c = CHR ''-'') (rev s))"

definition ends_with_minus :: "string \<Rightarrow> bool" where
  "ends_with_minus s = (s \<noteq> [] \<and> last s = CHR ''-'')"

text \<open>\<^verbatim>\<open>tokens.str.get(i)\<close>: the element, or a missing value out of range.\<close>

definition str_get :: "string list \<Rightarrow> nat \<Rightarrow> string option" where
  "str_get ts i = (if i < length ts then Some (ts ! i) else None)"

subsection \<open>FBL3N records\<close>

text \<open>
  A record as \<^verbatim>\<open>pd.read_csv\<close> delivers it: the cells the parsing works on, each
  possibly missing, and \<open>r_ids\<close> for Fiscal_Year, Period, GL_Account and
  Document_Number.
\<close>

record 'o raw_row =
  r_ids :: 'o
  r_assignment :: "string option"
  r_business_area :: "string option"
  r_document_type :: "string option"
  r_document_date :: "string option"
  r_posting_date :: "string option"
  r_posting_key :: "int option"
  r_lc_amount :: "string option"
  r_tax_code :: "string option"
  r_clearing_document :: "string option"
  r_text :: "string option"

text \<open>The fields derived from \<^verbatim>\<open>Text\<close>; Customer and Agreement before the numeric cast.\<close>

record derived =
  d_condition :: "string option"
  d_category :: "string option"
  d_customer :: "string option"
  d_agreement :: "string option"
  d_note :: "string option"

record ('o, 'dt) parsed_row =
  p_ids :: 'o
  p_assignment :: "string option"
  p_business_area :: "string option"
  p_document_type :: "string option"
  p_document_date :: "'dt option"
  p_posting_date :: "'dt option"
  p_posting_key :: "int option"
  p_lc_amount :: amount
  p_tax_code :: "string option"
  p_clearing_document :: "int option"
  p_text :: "string option"
  p_condition :: "string option"
  p_category :: "string option"
  p_customer :: "int option"
  p_agreement :: "int option"
  p_note :: "string option"

text \<open>
  The conversions of pandas, cell by cell: \<^verbatim>\<open>pd.to_numeric(errors = "coerce")\<close>
  followed by the cast to a nullable integer type (the cast may raise),
  \<^verbatim>\<open>pd.to_numeric\<close> followed by the cast to \<^verbatim>\<open>float64\<close> (the parse may raise),
  \<^verbatim>\<open>pd.to_datetime(dayfirst = True)\<close> with and without \<^verbatim>\<open>errors = "coerce"\<close>, and
  the casts of the four identifier columns in \<^verbatim>\<open>_parse_data\<close>. The flag
  \<open>full_setitem_inplace\<close> tells whether \<^verbatim>\<open>data.loc[idx, col] = values\<close> with an \<open>idx\<close> that
  covers every row writes into the existing column (pandas 2) or replaces the column
  (pandas 1); with an \<open>idx\<close> that leaves rows out it always writes into the column.
\<close>

record ('o, 'dt) pandas_ops =
  to_uint32 :: "string option \<Rightarrow> py_error + int option"
  to_uint64 :: "string option \<Rightarrow> py_error + int option"
  to_int64 :: "string option \<Rightarrow> py_error + int option"
  to_float64 :: "string option \<Rightarrow> py_error + amount"
  to_date :: "string option \<Rightarrow> py_error + 'dt option"
  to_date_coerce :: "string option \<Rightarrow> 'dt option"
  cast_ids :: "'o \<Rightarrow> py_error + 'o"
  full_setitem_inplace :: bool

text \<open>The cell of a conversion that did not raise.\<close>

definition cell :: "py_error + 'a option \<Rightarrow> 'a option" where
  "cell r = (case r of Inl e \<Rightarrow> None | Inr v \<Rightarrow> v)"

text \<open>\<^verbatim>\<open>data.loc[data[col] == "", col] = pd.NA\<close>.\<close>

definition blank_to_na :: "string option \<Rightarrow> string option" where
  "blank_to_na s = (if s = Some [] then None else s)"

text \<open>
  The SAP number format turned into a numeral (lines 1778-1779 and \<^verbatim>\<open>_parse_amounts\<close>):
  the thousands separators go, the decimal comma becomes a point, a trailing minus moves
  to the front.
\<close>

definition sap_number :: "string \<Rightarrow> string" where
  "sap_number s =
     (let replaced = map (\<lambda>c. if c = CHR '','' then CHR ''.'' else c)
                       (filter (\<lambda>c. c \<noteq> CHR ''.'') s)
      in if ends_with_minus replaced then CHR ''-'' # rstrip_minus replaced else replaced)"

text \<open>\<^verbatim>\<open>data["Text"].str.split(";")\<close> and the rows with at least 4 tokens.\<close>

definition tokens_of :: "string option \<Rightarrow> string list option" where
  "tokens_of txt = map_option (split_on CHR '';'') txt"

definition has_four :: "string list option \<Rightarrow> bool" where
  "has_four toks = (case toks of None \<Rightarrow> False | Some ts \<Rightarrow> 4 \<le> length ts)"

definition token :: "string list option \<Rightarrow> nat \<Rightarrow> string option" where
  "token toks i = (if has_four toks then str_get (the toks) i else None)"

definition null_unless_len :: "nat \<Rightarrow> string option \<Rightarrow> string option" where
  "null_unless_len n s = (case s of None \<Rightarrow> None | Some v \<Rightarrow> if length v \<noteq> n then None else Some v)"

text \<open>The Condition and the Category of a record when the column is cast (lines 1803-1825).\<close>

definition condition_cast :: "string option \<Rightarrow> string option" where
  "condition_cast txt = map_option strip_blanks (token (tokens_of txt) 0)"

definition category_cast :: "string option \<Rightarrow> string option" where
  "category_cast txt =
     (case map_option strip_blanks (token (tokens_of txt) 1) of
        None \<Rightarrow> None
      | Some v \<Rightarrow> if 2 < length v then None else Some v)"

text \<open>
  The derived fields in \<^verbatim>\<open>_parse_data_opt\<close>, lines 1788-1860, for a record whose
  \<^verbatim>\<open>Text\<close> is \<open>txt\<close> (an empty text is already a missing value).
\<close>

definition derive_opt :: "string option \<Rightarrow> derived" where
  "derive_opt txt =
     (let toks = tokens_of txt;
          note1 = map_option py_strip (token toks 4);
          note2 = (if note1 = Some [] then None else note1)
      in \<lparr> d_condition = null_unless_len 4 (map_option py_strip (condition_cast txt)),
           d_category = null_unless_len 2 (map_option py_strip (category_cast txt)),
           d_customer = token toks 2,
           d_agreement = token toks 3,
           d_note = note2 \<rparr>)"

text \<open>The derived fields in \<^verbatim>\<open>_parse_data\<close>, lines 420-459.\<close>

definition derive_std :: "string option \<Rightarrow> derived" where
  "derive_std txt =
     (let toks = tokens_of txt
      in \<lparr> d_condition = null_unless_len 4 (map_option py_strip (token toks 0)),
           d_category = null_unless_len 2 (map_option py_strip (token toks 1)),
           d_customer = token toks 2,
           d_agreement = token toks 3,
           d_note = map_option py_strip (token toks 4) \<rparr>)"

text \<open>
  A conversion of pandas works on a whole column: the first cell that cannot be
  converted raises. The columns are converted one after the other.
\<close>

fun first_error :: "('a \<Rightarrow> py_error + 'b) \<Rightarrow> 'a list \<Rightarrow> py_error option" where
  "first_error f [] = None"
| "first_error f (x # xs) = (case f x of Inl e \<Rightarrow> Some e | Inr v \<Rightarrow> first_error f xs)"

fun first_some :: "'e option list \<Rightarrow> 'e option" where
  "first_some [] = None"
| "first_some (None # es) = first_some es"
| "first_some (Some e # es) = Some e"

text \<open>
  Lines 1805 and 1846 (and 1825 and 1849): the column is cast to a categorical, whose
  categories are the values present, and then the stripped values are written back
  into the rows that have a value. Writing a value that is not among the categories
  raises a \<^verbatim>\<open>TypeError\<close>. \<open>col\<close> is the column when it is cast.
\<close>

definition new_category :: "string option list \<Rightarrow> bool" where
  "new_category col =
     (\<exists>c \<in> set col. case c of None \<Rightarrow> False | Some v \<Rightarrow> Some (py_strip v) \<notin> set col)"

definition strip_categorical :: "('o, 'dt) pandas_ops \<Rightarrow> string option list \<Rightarrow> py_error option" where
  "strip_categorical ops col =
     (if new_category col \<and> (None \<in> set col \<or> full_setitem_inplace ops)
      then Some TypeError else None)"

text \<open>One record of \<^verbatim>\<open>_parse_data_opt\<close>, lines 1767-1863.\<close>

definition opt_text :: "'o raw_row \<Rightarrow> string option" where
  "opt_text r = blank_to_na (r_text r)"

definition opt_amount_text :: "'o raw_row \<Rightarrow> string option" where
  "opt_amount_text r = map_option sap_number (r_lc_amount r)"

definition parse_row_opt :: "('o, 'dt) pandas_ops \<Rightarrow> 'o raw_row \<Rightarrow> ('o, 'dt) parsed_row" where
  "parse_row_opt ops r =
     (let d = derive_opt (opt_text r)
      in \<lparr> p_ids = r_ids r,
           p_assignment = blank_to_na (r_assignment r),
           p_business_area = blank_to_na (r_business_area r),
           p_document_type = r_document_type r,
           p_document_date = cell (to_date ops (r_document_date r)),
           p_posting_date = cell (to_date ops (r_posting_date r)),
           p_posting_key = r_posting_key r,
           p_lc_amount = cell (to_float64 ops (opt_amount_text r)),
           p_tax_code = blank_to_na (r_tax_code r),
           p_clearing_document = cell (to_uint64 ops (r_clearing_document r)),
           p_text = opt_text r,
           p_condition = d_condition d,
           p_category = d_category d,
           p_customer = cell (to_uint32 ops (d_customer d)),
           p_agreement = cell (to_uint32 ops (d_agreement d)),
           p_note = d_note d \<rparr>)"

text \<open>\<^verbatim>\<open>_parse_data_opt(data)\<close>: the conversions in the order of the source.\<close>

definition parse_data_opt ::
  "('o, 'dt) pandas_ops \<Rightarrow> 'o raw_row list \<Rightarrow> py_error + ('o, 'dt) parsed_row list" where
  "parse_data_opt ops data =
     (case first_some
        [first_error (\<lambda>r. to_uint64 ops (r_clearing_document r)) data,
         first_error (\<lambda>r. to_float64 ops (opt_amount_text r)) data,
         first_error (\<lambda>r. to_date ops (r_document_date r)) data,
         first_error (\<lambda>r. to_date ops (r_posting_date r)) data,
         first_error (\<lambda>r. to_uint32 ops (d_customer (derive_opt (opt_text r)))) data,
         first_error (\<lambda>r. to_uint32 ops (d_agreement (derive_opt (opt_text r)))) data,
         strip_categorical ops (map (\<lambda>r. condition_cast (opt_text r)) data),
         strip_categorical ops (map (\<lambda>r. category_cast (opt_text r)) data)] of
        Some e \<Rightarrow> Inl e
      | None \<Rightarrow> Inr (map (parse_row_opt ops) data))"

text \<open>One record of \<^verbatim>\<open>_parse_data\<close>, lines 390-467: every string cell is stripped first.\<close>

definition std_text :: "'o raw_row \<Rightarrow> string option" where
  "std_text r = blank_to_na (map_option py_strip (r_text r))"

definition std_amount_text :: "'o raw_row \<Rightarrow> string option" where
  "std_amount_text r = map_option (\<lambda>s. sap_number (py_strip s)) (r_lc_amount r)"

definition parse_row_std :: "('o, 'dt) pandas_ops \<Rightarrow> 'o raw_row \<Rightarrow> ('o, 'dt) parsed_row" where
  "parse_row_std ops r =
     (let d = derive_std (std_text r)
      in \<lparr> p_ids = (case cast_ids ops (r_ids r) of Inl e \<Rightarrow> r_ids r | Inr v \<Rightarrow> v),
           p_assignment = blank_to_na (map_option py_strip (r_assignment r)),
           p_business_area = blank_to_na (map_option py_strip (r_business_area r)),
           p_document_type = map_option py_strip (r_document_type r),
           p_document_date = to_date_coerce ops (map_option py_strip (r_document_date r)),
           p_posting_date = to_date_coerce ops (map_option py_strip (r_posting_date r)),
           p_posting_key = r_posting_key r,
           p_lc_amount = cell (to_float64 ops (std_amount_text r)),
           p_tax_code = blank_to_na (map_option py_strip (r_tax_code r)),
           p_clearing_document =
             cell (to_int64 ops (map_option py_strip (r_clearing_document r))),
           p_text = std_text r,
           p_condition = d_condition d,
           p_category = d_category d,
           p_customer = cell (to_uint32 ops (d_customer d)),
           p_agreement = cell (to_uint32 ops (d_agreement d)),
           p_note = d_note d \<rparr>)"

definition parse_data_std ::
  "('o, 'dt) pandas_ops \<Rightarrow> 'o raw_row list \<Rightarrow> py_error + ('o, 'dt) parsed_row list" where
  "parse_data_std ops data =
     (case first_some
        [first_error (\<lambda>r. to_int64 ops (map_option py_strip (r_clearing_document r))) data,
         first_error (\<lambda>r. cast_ids ops (r_ids r)) data,
         first_error (\<lambda>r. to_float64 ops (std_amount_text r)) data,
         first_error (\<lambda>r. to_uint32 ops (d_customer (derive_std (std_text r)))) data,
         first_error (\<lambda>r. to_uint32 ops (d_agreement (derive_std (std_text r)))) data] of
        Some e \<Rightarrow> Inl e
      | None \<Rightarrow> Inr (map (parse_row_std ops) data))"

subsection \<open>Chunked conversion\<close>

text \<open>
  \<^verbatim>\<open>np.array_split(data, n)\<close>: \<open>n\<close> contiguous sections, the first
  \<open>length data mod n\<close> of them one row longer.
\<close>

fun sections :: "nat list \<Rightarrow> 'a list \<Rightarrow> 'a list list" where
  "sections [] xs = []"
| "sections (k # ks) xs = take k xs # sections ks (drop k xs)"

definition array_split :: "'a list \<Rightarrow> nat \<Rightarrow> 'a list list" where
  "array_split xs n =
     (let q = length xs div n; r = length xs mod n
      in sections (replicate r (q + 1) @ replicate (n - r) q) xs)"

text \<open>
  \<^verbatim>\<open>Pool.map(f, chunks)\<close>: the results in the order of the chunks; when a worker
  raises, the call raises (here: the exception of the first failing chunk).
\<close>

fun pool_map :: "('a \<Rightarrow> py_error + 'b) \<Rightarrow> 'a list \<Rightarrow> py_error + 'b list" where
  "pool_map f [] = Inr []"
| "pool_map f (x # xs) =
     (case f x of
        Inl e \<Rightarrow> Inl e
      | Inr y \<Rightarrow> (case pool_map f xs of Inl e \<Rightarrow> Inl e | Inr ys \<Rightarrow> Inr (y # ys)))"

text \<open>Lines 1988-1989 and 672-673: an amount posted with key 50 is made negative.\<close>

definition negate_credit :: "('o, 'dt) parsed_row \<Rightarrow> ('o, 'dt) parsed_row" where
  "negate_credit p =
     (if p_posting_key p = Some 50 \<and> (case p_lc_amount p of None \<Rightarrow> False | Some v \<Rightarrow> 0 < v)
      then p\<lparr>p_lc_amount := map_option uminus (p_lc_amount p)\<rparr> else p)"

text \<open>Lines 1913-1920: the string columns stripped before the records are parsed.\<close>

definition strip_columns :: "'o raw_row \<Rightarrow> 'o raw_row" where
  "strip_columns r =
     r\<lparr>r_assignment := map_option py_strip (r_assignment r),
       r_business_area := map_option py_strip (r_business_area r),
       r_tax_code := map_option py_strip (r_tax_code r),
       r_text := map_option py_strip (r_text r),
       r_lc_amount := map_option py_strip (r_lc_amount r),
       r_clearing_document := map_option py_strip (r_clearing_document r)\<rparr>"

text \<open>
  \<^verbatim>\<open>convert_fbl3n_data_opt(file_path, multiproc, n_workers)\<close>, lines 1884-2017.
  \<open>read_table\<close> is reading the file, keeping the data lines and \<^verbatim>\<open>pd.read_csv\<close>.
  The result is \<open>Inr None\<close> when the function returns \<^verbatim>\<open>None\<close>.
\<close>

definition convert_fbl3n_data_opt ::
  "('o, 'dt) pandas_ops \<Rightarrow> (string \<Rightarrow> py_error + 'o raw_row list) \<Rightarrow> string \<Rightarrow> bool \<Rightarrow> int
     \<Rightarrow> py_error + ('o, 'dt) parsed_row list option" where
  "convert_fbl3n_data_opt ops read_table file_path multiproc n_workers =
     (case read_table file_path of
        Inl e \<Rightarrow> Inl e
      | Inr table \<Rightarrow>
          (let data = map strip_columns table;
               multiproc' = (if length data \<le> 1000 then False else multiproc)
           in case (if \<not> multiproc' then parse_data_opt ops data
                    else if \<not> 2 \<le> n_workers then Inl AssertionError
                    else (case pool_map (parse_data_opt ops) (array_split data (nat n_workers)) of
                            Inl e \<Rightarrow> Inl e
                          | Inr parts \<Rightarrow> Inr (concat parts))) of
                Inl e \<Rightarrow> Inl e
              | Inr parsed \<Rightarrow>
                  (if parsed = [] then Inr None
                   else
                     let fixed = map negate_credit parsed
                     in if \<not> list_all (\<lambda>p. p_document_type p \<noteq> None) fixed then Inl AssertionError
                        else if \<not> list_all (\<lambda>p. p_posting_key p \<noteq> None) fixed then Inl AssertionError
                        else Inr (Some fixed))))"

text \<open>
  \<^verbatim>\<open>_parse_fbl3n_data\<close>, lines 563-586, from the table on: a single-process
  failure is logged and \<^verbatim>\<open>None\<close> is returned; the pool has 5 workers.
\<close>

definition parse_fbl3n_data ::
  "('o, 'dt) pandas_ops \<Rightarrow> 'o raw_row list \<Rightarrow> bool \<Rightarrow> py_error + ('o, 'dt) parsed_row list option" where
  "parse_fbl3n_data ops data multiproc =
     (if length data \<le> 1000 \<or> \<not> multiproc then
        (case parse_data_std ops data of
           Inl e \<Rightarrow> Inr None
         | Inr parsed \<Rightarrow> Inr (Some parsed))
      else
        (case pool_map (parse_data_std ops) (array_split data 5) of
           Inl e \<Rightarrow> Inl e
         | Inr parts \<Rightarrow> Inr (Some (concat parts))))"

text \<open>
  \<^verbatim>\<open>infer_dtype(col) == "string"\<close> on a string column: some cell is present.
\<close>

definition infers_string :: "string option list \<Rightarrow> bool" where
  "infers_string col = (\<exists>c \<in> set col. c \<noteq> None)"

text \<open>
  \<^verbatim>\<open>convert_fbl3n_data(file_path, multiproc)\<close>, lines 606-706: an exception of
  \<^verbatim>\<open>_parse_fbl3n_data\<close> makes it return \<^verbatim>\<open>None\<close>; a \<^verbatim>\<open>None\<close> from there makes
  \<^verbatim>\<open>parsed.empty\<close> raise (an \<^verbatim>\<open>AttributeError\<close>, here \<open>OtherError\<close>).
\<close>

definition convert_fbl3n_data ::
  "('o, 'dt) pandas_ops \<Rightarrow> (string \<Rightarrow> py_error + 'o raw_row list) \<Rightarrow> string \<Rightarrow> bool
     \<Rightarrow> py_error + ('o, 'dt) parsed_row list option" where
  "convert_fbl3n_data ops read_table file_path multiproc =
     (case (case read_table file_path of
              Inl e \<Rightarrow> Inl e
            | Inr table \<Rightarrow> parse_fbl3n_data ops table multiproc) of
        Inl e \<Rightarrow> Inr None
      | Inr None \<Rightarrow> Inl OtherError
      | Inr (Some parsed) \<Rightarrow>
          (if parsed = [] then Inr None
           else if \<not> (infers_string (map p_text parsed) \<and> infers_string (map p_assignment parsed)
                    \<and> infers_string (map p_tax_code parsed)
                    \<and> infers_string (map p_business_area parsed))
           then Inl AssertionError
           else
             let fixed = map negate_credit parsed
             in if \<not> list_all (\<lambda>p. p_document_type p \<noteq> None) fixed then Inl AssertionError
                else if \<not> list_all (\<lambda>p. p_posting_key p \<noteq> None) fixed then Inl AssertionError
                else Inr (Some fixed)))"

subsection \<open>Example records\<close>

text \<open>
  An instance of the conversions for the examples: a numeral is a non-empty string
  of digits, an amount is a numeral with an optional minus sign, a date is kept
  as its text. Writing into a categorical column is in place.
\<close>

fun decimal :: "nat \<Rightarrow> string \<Rightarrow> nat" where
  "decimal n [] = n"
| "decimal n (c # cs) = decimal (10 * n + (of_char c - 48)) cs"

definition numeral_cell :: "string option \<Rightarrow> py_error + int option" where
  "numeral_cell s =
     (case s of
        None \<Rightarrow> Inr None
      | Some v \<Rightarrow> if v \<noteq> [] \<and> list_all is_digit v then Inr (Some (int (decimal 0 v))) else Inr None)"

definition amount_cell :: "string option \<Rightarrow> py_error + amount" where
  "amount_cell s =
     (case s of
        None \<Rightarrow> Inr None
      | Some v \<Rightarrow>
          if v \<noteq> [] \<and> list_all is_digit v then Inr (Some (of_nat (decimal 0 v)))
          else if v \<noteq> [] \<and> hd v = CHR ''-'' \<and> tl v \<noteq> [] \<and> list_all is_digit (tl v)
          then Inr (Some (- of_nat (decimal 0 (tl v))))
          else Inl ValueError)"

definition pandas_example :: "(unit, string) pandas_ops" where
  "pandas_example =
     \<lparr> to_uint32 = numeral_cell, to_uint64 = numeral_cell, to_int64 = numeral_cell,
       to_float64 = amount_cell, to_date = Inr, to_date_coerce = (\<lambda>s. s),
       cast_ids = Inr, full_setitem_inplace = True \<rparr>"

definition row_with_text :: "string \<Rightarrow> unit raw_row" where
  "row_with_text s =
     \<lparr> r_ids = (), r_assignment = None, r_business_area = None,
       r_document_type = Some ''SA'', r_document_date = Some ''01.02.2023'',
       r_posting_date = Some ''01.02.2023'', r_posting_key = Some 40,
       r_lc_amount = Some ''100'', r_tax_code = None, r_clearing_document = None,
       r_text = Some s \<rparr>"

subsection \<open>Records that parse\<close>

definition succeeds :: "py_error + 'a \<Rightarrow> bool" where
  "succeeds x = (case x of Inl e \<Rightarrow> False | Inr v \<Rightarrow> True)"

text \<open>The conversions of \<^verbatim>\<open>_parse_data_opt\<close> and of \<^verbatim>\<open>_parse_data\<close> that can raise, for one record.\<close>

definition cells_ok_opt :: "('o, 'dt) pandas_ops \<Rightarrow> 'o raw_row \<Rightarrow> bool" where
  "cells_ok_opt ops r =
     (succeeds (to_uint64 ops (r_clearing_document r))
      \<and> succeeds (to_float64 ops (opt_amount_text r))
      \<and> succeeds (to_date ops (r_document_date r))
      \<and> succeeds (to_date ops (r_posting_date r))
      \<and> succeeds (to_uint32 ops (d_customer (derive_opt (opt_text r))))
      \<and> succeeds (to_uint32 ops (d_agreement (derive_opt (opt_text r)))))"

definition cells_ok_std :: "('o, 'dt) pandas_ops \<Rightarrow> 'o raw_row \<Rightarrow> bool" where
  "cells_ok_std ops r =
     (succeeds (to_int64 ops (map_option py_strip (r_clearing_document r)))
      \<and> succeeds (cast_ids ops (r_ids r))
      \<and> succeeds (to_float64 ops (std_amount_text r))
      \<and> succeeds (to_uint32 ops (d_customer (derive_std (std_text r))))
      \<and> succeeds (to_uint32 ops (d_agreement (derive_std (std_text r)))))"

text \<open>
  A text whose Condition and Category, when the columns are cast to categoricals,
  have no white space left at their ends: stripping them changes nothing.
\<close>

definition clean_text :: "string option \<Rightarrow> bool" where
  "clean_text txt =
     ((case condition_cast txt of None \<Rightarrow> True | Some v \<Rightarrow> py_strip v = v)
      \<and> (case category_cast txt of None \<Rightarrow> True | Some v \<Rightarrow> py_strip v = v))"

text \<open>
  A table of 1002 records: 501 with a well-formed text, 500 with a text of one token,
  and a last one whose Condition is followed by a tab.
\<close>

definition text_plain :: string where
  "text_plain = ''ZB01;B1;1001;2002''"

definition text_short :: string where
  "text_short = ''payment''"

definition text_tab :: string where
  "text_tab = ''ZB01'' @ [CHR 0x09] @ '';B1;1001;2002''"

definition table_example :: "unit raw_row list" where
  "table_example =
     replicate 501 (row_with_text text_plain) @ replicate 500 (row_with_text text_short)
       @ [row_with_text text_tab]"

subsection \<open>Export stages\<close>

text \<open>
  The modules that drive the SAP GUI (\<^verbatim>\<open>biaFBL3N\<close>, \<^verbatim>\<open>biaSE16\<close>, \<^verbatim>\<open>biaZSD25\<close>,
  \<^verbatim>\<open>biaFS10N\<close>) are outside the model; what the controller does to them is recorded
  as the list of its calls: \<^verbatim>\<open>start(sess)\<close>, \<^verbatim>\<open>export(...)\<close> with what is exported
  (the table, the kind of bonus or the account), and \<^verbatim>\<open>close()\<close>. An export ends
  normally or raises \<^verbatim>\<open>NoDataFoundWarning\<close>, \<^verbatim>\<open>SapRuntimeError\<close> or another exception;
  which one depends on the calls made so far. \<^verbatim>\<open>start\<close> and \<^verbatim>\<open>close\<close> are taken to
  return normally. The rules of a country hold every entry the functions read;
  \<^verbatim>\<open>rules[cntry]\<close> raises a \<^verbatim>\<open>KeyError\<close> for a country without rules. Paths and
  dates, computed from the configuration, are left out.
\<close>

datatype sap_module = Fbl3n | Se16 | Zsd25 | Fs10n

datatype sap_call = Start sap_module | Export sap_module string | Close sap_module

datatype sap_result = Exported | NoDataFoundWarning | SapRuntimeError | SapError

type_synonym sap = "sap_call list \<Rightarrow> sap_result"

datatype failure = Py py_error | Sap sap_result

record 'd run_state =
  st_store :: rec_store
  st_accum :: "'d accum"
  st_calls :: "sap_call list"

definition do_call :: "sap_call \<Rightarrow> 'd run_state \<Rightarrow> 'd run_state" where
  "do_call c st = st\<lparr>st_calls := st_calls st @ [c]\<rparr>"

definition do_export :: "sap \<Rightarrow> sap_module \<Rightarrow> string \<Rightarrow> 'd run_state \<Rightarrow> sap_result \<times> 'd run_state" where
  "do_export sap m what st =
     (let st' = do_call (Export m what) st in (sap (st_calls st'), st'))"

text \<open>\<^verbatim>\<open>rec.save_state(...)\<close> followed by the rest of the function, or its exception.\<close>

definition do_save ::
  "string \<Rightarrow> string \<Rightarrow> sval \<Rightarrow> acc option \<Rightarrow> 'd run_state \<Rightarrow> (py_error + unit) \<times> 'd run_state" where
  "do_save cntry key v a st =
     (case save_state cntry key v a (st_store st) of
        (r, w) \<Rightarrow> (r, st\<lparr>st_store := w\<rparr>))"

text \<open>
  A \<^verbatim>\<open>save_state\<close> inside a \<^verbatim>\<open>try\<close> whose \<^verbatim>\<open>finally\<close> closes the transaction: the
  transaction is closed, then the function returns \<open>res\<close> or the exception goes on.
\<close>

definition save_close ::
  "string \<Rightarrow> string \<Rightarrow> sval \<Rightarrow> acc option \<Rightarrow> sap_module \<Rightarrow> bool \<Rightarrow> 'd run_state
     \<Rightarrow> (failure + bool) \<times> 'd run_state" where
  "save_close cntry key v a m res st =
     (case do_save cntry key v a st of
        (Inl e, st') \<Rightarrow> (Inl (Py e), do_call (Close m) st')
      | (Inr u, st') \<Rightarrow> (Inr res, do_call (Close m) st'))"

text \<open>\<^verbatim>\<open>proc.get_se16_agreements(data)\<close>: \<^verbatim>\<open>data["Agreement"].unique()\<close>.\<close>

definition get_se16_agreements :: "('d \<Rightarrow> py_error + 'g) \<Rightarrow> 'd slot \<Rightarrow> py_error + 'g" where
  "get_se16_agreements agreement s =
     (case s of
        Leaf None \<Rightarrow> Inl TypeError
      | Leaf (Some df) \<Rightarrow> agreement df
      | Node m \<Rightarrow> Inl KeyError)"

text \<open>\<^verbatim>\<open>export_se16_kote_data\<close>, lines 647-673.\<close>

definition export_se16_kote_data ::
  "rules \<Rightarrow> sap \<Rightarrow> string \<Rightarrow> 'd run_state \<Rightarrow> (failure + bool) \<times> 'd run_state" where
  "export_se16_kote_data rs sap cntry st =
     (case rs cntry of
        None \<Rightarrow> (Inl (Py KeyError), st)
      | Some r \<Rightarrow>
          (case get_state cntry ''se16_kote_data_exported'' None (st_store st) of
             Inl e \<Rightarrow> (Inl (Py e), st)
           | Inr v \<Rightarrow>
               if truthy v then (Inr True, st)
               else
                 (case do_export sap Se16 ''KOTE'' (do_call (Start Se16) st) of
                    (Exported, st2) \<Rightarrow>
                      save_close cntry ''se16_kote_data_exported'' (VBool True) None Se16 True st2
                  | (other, st2) \<Rightarrow> (Inr False, do_call (Close Se16) st2))))"

text \<open>
  \<^verbatim>\<open>export_se16_kona_data\<close>, lines 698-729: the agreement numbers are read from the
  accumulator before the flag is looked at.
\<close>

definition export_se16_kona_data ::
  "rules \<Rightarrow> 'd frame_ops \<Rightarrow> ('d \<Rightarrow> py_error + 'g) \<Rightarrow> sap \<Rightarrow> string \<Rightarrow> 'd run_state
     \<Rightarrow> (failure + bool) \<times> 'd run_state" where
  "export_se16_kona_data rs ops agreement sap cntry st =
     (case rs cntry of
        None \<Rightarrow> (Inl (Py KeyError), st)
      | Some r \<Rightarrow>
          (case get_from_accum ops cntry ''kote_data'' None (st_accum st) of
             Inl e \<Rightarrow> (Inl (Py e), st)
           | Inr s \<Rightarrow>
               (case get_se16_agreements agreement s of
                  Inl e \<Rightarrow> (Inl (Py e), st)
                | Inr agr_nums \<Rightarrow>
                    (case get_state cntry ''se16_kona_data_exported'' None (st_store st) of
                       Inl e \<Rightarrow> (Inl (Py e), st)
                     | Inr v \<Rightarrow>
                         if truthy v then (Inr True, st)
                         else
                           (case do_export sap Se16 ''KONA'' (do_call (Start Se16) st) of
                              (NoDataFoundWarning, st2) \<Rightarrow>
                                save_close cntry ''se16_no_kona_data'' (VBool True) None Se16 True st2
                            | (Exported, st2) \<Rightarrow>
                                save_close cntry ''se16_kona_data_exported'' (VBool True) None Se16
                                  True st2
                            | (other, st2) \<Rightarrow> (Inr False, do_call (Close Se16) st2))))))"

text \<open>\<^verbatim>\<open>export_zsd25_local_data\<close>, lines 845-876: the result is \<^verbatim>\<open>True\<close> in any case.\<close>

definition export_zsd25_local_data ::
  "rules \<Rightarrow> sap \<Rightarrow> string \<Rightarrow> 'd run_state \<Rightarrow> (failure + bool) \<times> 'd run_state" where
  "export_zsd25_local_data rs sap cntry st =
     (case rs cntry of
        None \<Rightarrow> (Inl (Py KeyError), st)
      | Some r \<Rightarrow>
          (case get_state cntry ''zsd25_loc_data_exported'' None (st_store st) of
             Inl e \<Rightarrow> (Inl (Py e), st)
           | Inr v \<Rightarrow>
               if truthy v then (Inr True, st)
               else
                 (case do_export sap Zsd25 ''local'' (do_call (Start Zsd25) st) of
                    (Exported, st2) \<Rightarrow>
                      save_close cntry ''zsd25_loc_data_exported'' (VBool True) None Zsd25 True st2
                  | (other, st2) \<Rightarrow> (Inr True, do_call (Close Zsd25) st2))))"

text \<open>
  \<^verbatim>\<open>export_zsd25_global_data\<close>, lines 902-951: three flags end the function at
  once; the agreement numbers are read after the transaction is started, outside the
  \<^verbatim>\<open>try\<close>.
\<close>

definition first_truthy :: "string \<Rightarrow> string list \<Rightarrow> rec_store \<Rightarrow> py_error + bool" where
  "first_truthy cntry keys w =
     foldl (\<lambda>res key.
              case res of
                Inl e \<Rightarrow> Inl e
              | Inr True \<Rightarrow> Inr True
              | Inr False \<Rightarrow> map_sum (\<lambda>e. e) truthy (get_state cntry key None w))
       (Inr False) keys"

definition export_zsd25_global_data ::
  "rules \<Rightarrow> 'd frame_ops \<Rightarrow> ('d \<Rightarrow> py_error + 'g) \<Rightarrow> sap \<Rightarrow> string \<Rightarrow> 'd run_state
     \<Rightarrow> (failure + bool) \<times> 'd run_state" where
  "export_zsd25_global_data rs ops agreement sap cntry st =
     (case rs cntry of
        None \<Rightarrow> (Inl (Py KeyError), st)
      | Some r \<Rightarrow>
          (case first_truthy cntry
                  [''se16_no_kona_data'', ''zsd25_glob_data_exported'', ''zsd25_no_glob_data'']
                  (st_store st) of
             Inl e \<Rightarrow> (Inl (Py e), st)
           | Inr True \<Rightarrow> (Inr True, st)
           | Inr False \<Rightarrow>
               (let st1 = do_call (Start Zsd25) st
                in case get_from_accum ops cntry ''kona_data'' None (st_accum st1) of
                     Inl e \<Rightarrow> (Inl (Py e), st1)
                   | Inr s \<Rightarrow>
                       (case get_se16_agreements agreement s of
                          Inl e \<Rightarrow> (Inl (Py e), st1)
                        | Inr agr_nums \<Rightarrow>
                            (case do_export sap Zsd25 ''global'' st1 of
                               (NoDataFoundWarning, st2) \<Rightarrow>
                                 save_close cntry ''zsd25_no_glob_data'' (VBool True) None Zsd25
                                   True st2
                             | (Exported, st2) \<Rightarrow>
                                 save_close cntry ''zsd25_glob_data_exported'' (VBool True) None
                                   Zsd25 True st2
                             | (other, st2) \<Rightarrow> (Inr True, do_call (Close Zsd25) st2))))))"

text \<open>
  \<^verbatim>\<open>export_fs10n_data\<close>, lines 1084-1128. The transaction is started before the
  accounts are gone through and closed after; an account whose flag is
  \<^verbatim>\<open>"data_nonexist"\<close> or true is passed over.
\<close>

fun fs10n_accounts ::
  "sap \<Rightarrow> string \<Rightarrow> string list \<Rightarrow> 'd run_state \<Rightarrow> (failure + bool) \<times> 'd run_state" where
  "fs10n_accounts sap cntry [] st = (Inr True, do_call (Close Fs10n) st)"
| "fs10n_accounts sap cntry (a # rest) st =
     (case get_state cntry ''fs10n_data_exported'' (Some (AccStr a)) (st_store st) of
        Inl e \<Rightarrow> (Inl (Py e), st)
      | Inr v \<Rightarrow>
          if v = Flag (VStr ''data_nonexist'') \<or> truthy v then fs10n_accounts sap cntry rest st
          else
            (case do_export sap Fs10n a st of
               (NoDataFoundWarning, st2) \<Rightarrow>
                 (case do_save cntry ''fs10n_data_exported'' (VStr ''data_nonexist'')
                         (Some (AccStr a)) st2 of
                    (Inl e, st3) \<Rightarrow> (Inl (Py e), st3)
                  | (Inr u, st3) \<Rightarrow> fs10n_accounts sap cntry rest st3)
             | (Exported, st2) \<Rightarrow>
                 (case do_save cntry ''fs10n_data_exported'' (VBool True) (Some (AccStr a)) st2 of
                    (Inl e, st3) \<Rightarrow> (Inl (Py e), st3)
                  | (Inr u, st3) \<Rightarrow> fs10n_accounts sap cntry rest st3)
             | (other, st2) \<Rightarrow> (Inr False, do_call (Close Fs10n) st2)))"

definition export_fs10n_data ::
  "rules \<Rightarrow> sap \<Rightarrow> string \<Rightarrow> 'd run_state \<Rightarrow> (failure + bool) \<times> 'd run_state" where
  "export_fs10n_data rs sap cntry st =
     (case rs cntry of
        None \<Rightarrow> (Inl (Py KeyError), st)
      | Some r \<Rightarrow> fs10n_accounts sap cntry (map str_acc (accounts r)) (do_call (Start Fs10n) st))"

text \<open>
  The retries of \<^verbatim>\<open>export_fbl3n_data\<close>, lines 491-501: the loop is left with the
  count of failed attempts, or by an exception other than \<^verbatim>\<open>SapRuntimeError\<close>.
\<close>

function fbl3n_retry :: "sap \<Rightarrow> int \<Rightarrow> 'd run_state \<Rightarrow> (sap_result + int) \<times> 'd run_state" where
  "fbl3n_retry sap n_th st =
     (if n_th < 3 then
        (case do_export sap Fbl3n ''items'' st of
           (SapRuntimeError, st2) \<Rightarrow> fbl3n_retry sap (n_th + 1) st2
         | (Exported, st2) \<Rightarrow> (Inr n_th, st2)
         | (other, st2) \<Rightarrow> (Inl other, st2))
      else (Inr n_th, st))"
  by pat_completeness auto

termination fbl3n_retry
  by (relation "measure (\<lambda>(sap, n_th, st). nat (3 - n_th))") auto

declare fbl3n_retry.simps [simp del]

text \<open>
  \<^verbatim>\<open>export_fbl3n_data\<close>, lines 463-515. After a \<^verbatim>\<open>NoDataFoundWarning\<close> or another
  exception of the first attempt no attempt has been counted, so the flag is saved.
\<close>

definition export_fbl3n_data ::
  "rules \<Rightarrow> sap \<Rightarrow> string \<Rightarrow> 'd run_state \<Rightarrow> (failure + bool) \<times> 'd run_state" where
  "export_fbl3n_data rs sap cntry st =
     (case get_state cntry ''fbl3n_data_exported'' None (st_store st) of
        Inl e \<Rightarrow> (Inl (Py e), st)
      | Inr v \<Rightarrow>
          if truthy v then (Inr True, st)
          else
            (case rs cntry of
               None \<Rightarrow> (Inl (Py KeyError), st)
             | Some r \<Rightarrow>
                 (case (case do_export sap Fbl3n ''items'' (do_call (Start Fbl3n) st) of
                          (SapRuntimeError, st2) \<Rightarrow> fbl3n_retry sap 0 st2
                        | (other, st2) \<Rightarrow> (Inr 0, st2)) of
                    (Inl exc, st3) \<Rightarrow> (Inl (Sap exc), do_call (Close Fbl3n) st3)
                  | (Inr n_th, st3) \<Rightarrow>
                      (let st4 = do_call (Close Fbl3n) st3
                       in if n_th < 3 then
                            (case do_save cntry ''fbl3n_data_exported'' (VBool True) None st4 of
                               (Inl e, st5) \<Rightarrow> (Inl (Py e), st5)
                             | (Inr u, st5) \<Rightarrow> (Inr True, st5))
                          else (Inr False, st4)))))"

subsection \<open>One country of the main loop\<close>

text \<open>
  The steps of \<^verbatim>\<open>main\<close> that are not exports (processing, reconciliation, report,
  notification) are parameters: each turns the state into a new one and returns
  normally (processing of FBL3N data, reconciliation and report with a truth value)
  or raises.
\<close>

record 'd stages =
  process_se16_kote_data :: "string \<Rightarrow> 'd run_state \<Rightarrow> (failure + unit) \<times> 'd run_state"
  process_se16_kona_data :: "string \<Rightarrow> 'd run_state \<Rightarrow> (failure + unit) \<times> 'd run_state"
  process_zsd25_global_data :: "string \<Rightarrow> 'd run_state \<Rightarrow> (failure + unit) \<times> 'd run_state"
  process_zsd25_local_data :: "string \<Rightarrow> 'd run_state \<Rightarrow> (failure + unit) \<times> 'd run_state"
  process_fs10n_data :: "string \<Rightarrow> 'd run_state \<Rightarrow> (failure + unit) \<times> 'd run_state"
  process_fbl3n_data :: "string \<Rightarrow> 'd run_state \<Rightarrow> (failure + bool) \<times> 'd run_state"
  reconcile :: "string \<Rightarrow> 'd run_state \<Rightarrow> (failure + bool) \<times> 'd run_state"
  generate_report :: "string \<Rightarrow> 'd run_state \<Rightarrow> (failure + bool) \<times> 'd run_state"
  notify :: "string \<Rightarrow> bool \<Rightarrow> 'd run_state \<Rightarrow> (failure + unit) \<times> 'd run_state"

datatype country_result = Skipped | Stopped | Completed

text \<open>A step that returns a truth value, then the rest when it is true.\<close>

definition and_then ::
  "(failure + bool) \<times> 'd run_state \<Rightarrow> ('d run_state \<Rightarrow> (failure + country_result) \<times> 'd run_state)
     \<Rightarrow> (failure + country_result) \<times> 'd run_state" where
  "and_then step rest =
     (case step of
        (Inl e, st) \<Rightarrow> (Inl e, st)
      | (Inr False, st) \<Rightarrow> (Inr Stopped, st)
      | (Inr True, st) \<Rightarrow> rest st)"

definition then_do ::
  "(failure + unit) \<times> 'd run_state \<Rightarrow> ('d run_state \<Rightarrow> (failure + country_result) \<times> 'd run_state)
     \<Rightarrow> (failure + country_result) \<times> 'd run_state" where
  "then_do step rest =
     (case step of
        (Inl e, st) \<Rightarrow> (Inl e, st)
      | (Inr u, st) \<Rightarrow> rest st)"

text \<open>\<^verbatim>\<open>is_reconciled(cntry)\<close> and \<^verbatim>\<open>set_completed(cntry)\<close>, lines 1612-1647.\<close>

definition is_reconciled :: "string \<Rightarrow> rec_store \<Rightarrow> py_error + bool" where
  "is_reconciled cntry w = map_sum (\<lambda>e. e) truthy (get_state cntry ''reconciled'' None w)"

definition set_completed :: "string \<Rightarrow> 'd run_state \<Rightarrow> (failure + country_result) \<times> 'd run_state" where
  "set_completed cntry st =
     (case do_save cntry ''reconciled'' (VBool True) None st of
        (Inl e, st') \<Rightarrow> (Inl (Py e), st')
      | (Inr u, st') \<Rightarrow> (Inr Completed, st'))"

text \<open>The body of the loop over the countries in \<^verbatim>\<open>main\<close> of \<^verbatim>\<open>app_test.py\<close>.\<close>

definition reconcile_country ::
  "rules \<Rightarrow> 'd frame_ops \<Rightarrow> ('d \<Rightarrow> py_error + 'g) \<Rightarrow> sap \<Rightarrow> 'd stages \<Rightarrow> string \<Rightarrow> 'd run_state
     \<Rightarrow> (failure + country_result) \<times> 'd run_state" where
  "reconcile_country rs ops agreement sap sg cntry st =
     (case is_reconciled cntry (st_store st) of
        Inl e \<Rightarrow> (Inl (Py e), st)
      | Inr True \<Rightarrow> (Inr Skipped, st)
      | Inr False \<Rightarrow>
          and_then (export_se16_kote_data rs sap cntry st) (\<lambda>st.
          then_do (process_se16_kote_data sg cntry st) (\<lambda>st.
          and_then (export_se16_kona_data rs ops agreement sap cntry st) (\<lambda>st.
          then_do (process_se16_kona_data sg cntry st) (\<lambda>st.
          and_then (export_zsd25_global_data rs ops agreement sap cntry st) (\<lambda>st.
          then_do (process_zsd25_global_data sg cntry st) (\<lambda>st.
          and_then (export_zsd25_local_data rs sap cntry st) (\<lambda>st.
          then_do (process_zsd25_local_data sg cntry st) (\<lambda>st.
          and_then (export_fs10n_data rs sap cntry st) (\<lambda>st.
          then_do (process_fs10n_data sg cntry st) (\<lambda>st.
          and_then (export_fbl3n_data rs sap cntry st) (\<lambda>st.
          and_then (process_fbl3n_data sg cntry st) (\<lambda>st.
          (case reconcile sg cntry st of
             (Inl e, st) \<Rightarrow> (Inl e, st)
           | (Inr False, st) \<Rightarrow>
               then_do (notify sg cntry False st) (\<lambda>st. (Inr Stopped, st))
           | (Inr True, st) \<Rightarrow>
               and_then (generate_report sg cntry st) (\<lambda>st.
               then_do (notify sg cntry True st) (\<lambda>st.
               set_completed cntry st))))))))))))))))"

text \<open>A stage flag that is recorded as complete: the stored value is \<^verbatim>\<open>True\<close>.\<close>

definition flag_set :: "string \<Rightarrow> string \<Rightarrow> 'd run_state \<Rightarrow> bool" where
  "flag_set cntry key st = (get_state cntry key None (st_store st) = Inr (Flag (VBool True)))"

text \<open>
  A store in which every stage of a country is complete: the stage flags are
  \<^verbatim>\<open>True\<close>, also for each account, and the other entries are as \<^verbatim>\<open>reset_states\<close>
  wrote them.
\<close>

definition stage_flags :: "string list" where
  "stage_flags =
     [''reconciled'', ''db_updated'', ''fbl3n_data_exported'', ''fbl3n_data_processed'',
      ''se16_kona_data_exported'', ''se16_kote_data_exported'', ''se16_kona_data_processed'',
      ''se16_kote_data_processed'', ''zsd25_glob_data_exported'', ''zsd25_glob_data_processed'',
      ''zsd25_glob_data_calculated'', ''zsd25_loc_data_exported'', ''zsd25_loc_data_processed'',
      ''zsd25_loc_data_calculated'', ''yearly_summary_retrieved'']"

definition account_flags :: "string list" where
  "account_flags = [''text_summary_retrieved'', ''fs10n_data_exported'', ''fs10n_data_processed'']"

definition complete_cstate :: "acc list \<Rightarrow> cstate" where
  "complete_cstate accs =
     (\<lambda>key. if key \<in> set stage_flags then Some (Flag (VBool True))
            else if key \<in> set account_flags
            then Some (PerAcc (map_of (map (\<lambda>a. (str_acc a, VBool True)) accs)))
            else default_cstate accs key)"

definition store_complete :: rec_store where
  "store_complete =
     \<lparr> rec_file = Map.empty(''recovery.json'' \<mapsto>
                    Map.empty(''Czechia'' \<mapsto> complete_cstate [AccInt 66791580])),
       rec_path = Some ''recovery.json'',
       ent_states = Some (Map.empty(''Czechia'' \<mapsto> complete_cstate [AccInt 66791580])) \<rparr>"

text \<open>
  A run that resumes from that store, with the KOTE data already in the accumulator and
  no call made yet; the toy DataFrame is the list of its column labels.
\<close>

definition agreement_column :: "acc list \<Rightarrow> py_error + acc list" where
  "agreement_column df = (if AccStr ''Agreement'' \<in> set df then Inr [AccStr ''Agreement''] else Inl KeyError)"

definition run_complete :: "acc list run_state" where
  "run_complete =
     \<lparr> st_store = store_complete,
       st_accum = accum_init(''kote_data'' \<mapsto>
                    Map.empty(''Czechia'' \<mapsto> Leaf (Some [AccStr ''Agreement'']))),
       st_calls = [] \<rparr>"

definition sap_down :: sap where
  "sap_down calls = SapError"

section \<open>Properties\<close>

subsection \<open>Accumulator\<close>

lemma isnumeric_example: "isnumeric ''66791580''"
  by (simp add: isnumeric_def is_digit_def)

lemma accum_init_fs10n: "(accum_init :: 'd accum) ''fs10n_data'' = Some Map.empty"
  by (simp add: accum_init_def accum_kinds_def)

lemma label_ops_law:
  "\<forall>df x v df'. setitem label_ops df x v = Inr df' \<longrightarrow> contains label_ops df' x"
  by (auto simp: label_ops_def)

text \<open>
  Claim C2 as stated fails in its last part: \<^verbatim>\<open>get_from_accum\<close> called without an
  account, on a (country, kind) pair under which only per-account entries were stored,
  returns the per-account dict although the key (country, kind, no account) was never
  stored. \<^verbatim>\<open>reconcile\<close> relies on this when it fetches \<^verbatim>\<open>"text_summs"\<close>.
\<close>

theorem accum_fetch_unset_counterexample:
  "store_to_accum label_ops (Some [AccStr ''Period'']) ''SK'' ''fs10n_data''
       (Some (AccStr ''66791580'')) accum_init = Inr accum_example
   \<and> \<not> stored accum_example ''SK'' ''fs10n_data'' None
   \<and> get_from_accum label_ops ''SK'' ''fs10n_data'' None accum_example
       = Inr (Node (Map.empty(AccStr ''66791580'' \<mapsto> Some [AccStr ''Period''])))"
  by (simp add: store_to_accum_def get_from_accum_def stored_def accum_example_def
      bad_account_def isnumeric_example accum_init_fs10n)

text \<open>
  Claim C2, amended: a second \<^verbatim>\<open>store_to_accum\<close> with the same country, kind and
  account raises whatever the value, and the first value stays in place; a
  \<^verbatim>\<open>get_from_accum\<close> raises when nothing was stored under the (country, kind) pair,
  and when the given account is missing from the pair's per-account dict. (Without an
  account, a pair holding per-account entries yields that dict.) The hypothesis is the
  one law of pandas the DataFrame branch needs: a column that was set is contained.
\<close>

theorem accum_store_once_fetch_unset:
  assumes law: "\<forall>df x v df'. setitem ops df x v = Inr df' \<longrightarrow> contains ops df' x"
  shows "(store_to_accum ops d1 c k a A = Inr A' \<longrightarrow> isl (store_to_accum ops d2 c k a A'))
    \<and> (store_to_accum ops d1 c k a A = Inr A'
         \<and> (\<forall>kd df. A k = Some kd \<longrightarrow> kd c \<noteq> Some (Leaf (Some df)))
       \<longrightarrow> get_from_accum ops c k a A' = Inr (Leaf d1))
    \<and> ((\<forall>kd. A k = Some kd \<longrightarrow> kd c = None) \<longrightarrow> isl (get_from_accum ops c k a A))
    \<and> (\<forall>kd m x. A k = Some kd \<and> kd c = Some (Node m) \<and> m x = None
         \<longrightarrow> isl (get_from_accum ops c k (Some x) A))"
proof (intro conjI impI allI)
  assume "store_to_accum ops d1 c k a A = Inr A'"
  then show "isl (store_to_accum ops d2 c k a A')"
    by (auto simp: store_to_accum_def
        split: if_splits option.splits slot.splits sum.splits dest!: law [rule_format])
next
  assume "store_to_accum ops d1 c k a A = Inr A'
    \<and> (\<forall>kd df. A k = Some kd \<longrightarrow> kd c \<noteq> Some (Leaf (Some df)))"
  then show "get_from_accum ops c k a A' = Inr (Leaf d1)"
    by (auto simp: store_to_accum_def get_from_accum_def
        split: if_splits option.splits slot.splits sum.splits)
next
  assume "\<forall>kd. A k = Some kd \<longrightarrow> kd c = None"
  then show "isl (get_from_accum ops c k a A)"
    by (auto simp: get_from_accum_def split: option.splits)
next
  fix kd m x
  assume "A k = Some kd \<and> kd c = Some (Node m) \<and> m x = None"
  then show "isl (get_from_accum ops c k (Some x) A)"
    by (auto simp: get_from_accum_def)
qed

theorem accum_store_once_fetch_unset_witness:
  "store_to_accum label_ops (Some [AccStr ''Period'']) ''SK'' ''fs10n_data''
       (Some (AccStr ''66791580'')) accum_init = Inr accum_example
   \<and> isl (store_to_accum label_ops None ''SK'' ''fs10n_data''
       (Some (AccStr ''66791580'')) accum_example)
   \<and> get_from_accum label_ops ''SK'' ''fs10n_data'' (Some (AccStr ''66791580'')) accum_example
       = Inr (Leaf (Some [AccStr ''Period'']))
   \<and> isl (get_from_accum label_ops ''CZ'' ''fs10n_data'' None
       (accum_init :: acc list accum))
   \<and> isl (get_from_accum label_ops ''SK'' ''fs10n_data'' (Some (AccStr ''66791581''))
       accum_example)"
proof -
  let ?a = "Some (AccStr ''66791580'')"
  have first: "store_to_accum label_ops (Some [AccStr ''Period'']) ''SK'' ''fs10n_data'' ?a
      accum_init = Inr accum_example"
    by (simp add: store_to_accum_def accum_example_def bad_account_def isnumeric_example
        accum_init_fs10n)
  have fresh: "\<forall>kd df. (accum_init :: acc list accum) ''fs10n_data'' = Some kd
      \<longrightarrow> kd ''SK'' \<noteq> Some (Leaf (Some df))"
    by (simp add: accum_init_fs10n)
  have empty: "\<forall>kd. (accum_init :: acc list accum) ''fs10n_data'' = Some kd
      \<longrightarrow> kd ''CZ'' = None"
    by (simp add: accum_init_fs10n)
  have node: "accum_example ''fs10n_data''
        = Some (Map.empty(''SK'' \<mapsto> Node (Map.empty(AccStr ''66791580'' \<mapsto> Some [AccStr ''Period'']))))
      \<and> (Map.empty(''SK'' \<mapsto> Node (Map.empty(AccStr ''66791580'' \<mapsto> Some [AccStr ''Period''])))) ''SK''
        = Some (Node (Map.empty(AccStr ''66791580'' \<mapsto> Some [AccStr ''Period''])))
      \<and> (Map.empty(AccStr ''66791580'' \<mapsto> Some [AccStr ''Period''])) (AccStr ''66791581'') = None"
    by (simp add: accum_example_def)
  from accum_store_once_fetch_unset [where ops = label_ops
      and ?d1.0 = "Some [AccStr ''Period'']" and c = "''SK''" and k = "''fs10n_data''"
      and a = ?a and A = accum_init and A' = accum_example and ?d2.0 = None,
      OF label_ops_law] first fresh
  have a: "isl (store_to_accum label_ops None ''SK'' ''fs10n_data'' ?a accum_example)"
    and b: "get_from_accum label_ops ''SK'' ''fs10n_data'' ?a accum_example
      = Inr (Leaf (Some [AccStr ''Period'']))"
    by blast+
  from accum_store_once_fetch_unset [where ops = label_ops
      and c = "''CZ''" and k = "''fs10n_data''" and a = None and A = accum_init,
      OF label_ops_law] empty
  have c: "isl (get_from_accum label_ops ''CZ'' ''fs10n_data'' None
      (accum_init :: acc list accum))"
    by blast
  from accum_store_once_fetch_unset [where ops = label_ops
      and c = "''SK''" and k = "''fs10n_data''" and A = accum_example,
      OF label_ops_law] node
  have d: "isl (get_from_accum label_ops ''SK'' ''fs10n_data'' (Some (AccStr ''66791581''))
      accum_example)"
    by blast
  from first a b c d show ?thesis by blast
qed

subsection \<open>Checkpoint store: initialisation\<close>







subsection \<open>Exchange-rate fallback and the user messages\<close>

lemma cz_doc: "default_doc [''Czechia''] rules_cz ''Czechia'' = Some (default_cstate [AccInt 66791580])"
  by (simp add: default_doc_def rules_cz_def)

lemma rate_two_days_ago: "get_exchange_rate env_two_days_ago d ''CZK'' ''EUR'' tmo =
   (if \<not> (738368 < d \<and> d < 738595) then Inl ValueError
    else if d = 738592 then Inr (Some (2563 / 100)) else Inl ResponseError)"
  by (simp add: get_exchange_rate_def env_two_days_ago_def allowed_currs_def)

lemma walk_back_two_7: "walk_back env_two_days_ago times_mid_month ''CZK'' 7 p = Inr (None, p)"
  by (subst walk_back.simps) simp

lemma walk_back_two_5: "walk_back env_two_days_ago times_mid_month ''CZK'' 5 p = Inr (None, 738589)"
  by (subst walk_back.simps) (simp add: rate_two_days_ago times_mid_month_def walk_back_two_7 [unfolded times_mid_month_def])

lemma walk_back_two_3: "walk_back env_two_days_ago times_mid_month ''CZK'' 3 p = Inr (None, 738589)"
  by (subst walk_back.simps) (simp add: rate_two_days_ago times_mid_month_def walk_back_two_5 [unfolded times_mid_month_def])

lemma walk_back_two_1: "walk_back env_two_days_ago times_mid_month ''CZK'' 1 p = Inr (None, 738589)"
  by (subst walk_back.simps) (simp add: rate_two_days_ago times_mid_month_def walk_back_two_3 [unfolded times_mid_month_def])

lemma first_attempt_two: "first_attempt env_two_days_ago times_mid_month ''CZK'' = Inr None"
  by (simp add: first_attempt_def rate_two_days_ago times_mid_month_def)

lemma save_state_flag:
  "ent_states w = Some doc \<Longrightarrow> doc c = Some cs \<Longrightarrow> rec_path w = Some p \<Longrightarrow>
   save_state c key v None w =
     (Inr (), w\<lparr>ent_states := Some (doc(c \<mapsto> cs(key \<mapsto> Flag v))),
                  rec_file := (rec_file w)(p \<mapsto> doc(c \<mapsto> cs(key \<mapsto> Flag v)))\<rparr>)"
  by (simp add: save_state_def Let_def)

lemma get_state_flag:
  "ent_states w = Some doc \<Longrightarrow> doc c = Some cs \<Longrightarrow>
   get_state c key None w = (case cs key of None \<Rightarrow> Inl KeyError | Some v \<Rightarrow> Inr v)"
  by (simp add: get_state_def split: option.splits)

lemma default_msgs:
  "default_cstate accs ''user_warning'' = Some (Flag (VStr []))"
  "default_cstate accs ''user_error'' = Some (Flag (VStr []))"
  by (simp_all add: default_cstate_def default_flags_def)

lemma store_cz_fields:
  "ent_states store_cz = Some (default_doc [''Czechia''] rules_cz)"
  "rec_path store_cz = Some ''recovery.json''"
  by (simp_all add: store_cz_def)

text \<open>
  Claim C4 holds of the intended design but not of the code. The portal answers "no rate"
  (\<^verbatim>\<open>ResponseError\<close>) for 2023-03-15 and for the day before, and has published a
  rate two days before. The day is not the day after period end, so the claim has the
  walk-back find that rate and record a warning. The loop adds 1 to \<^verbatim>\<open>past_days\<close>
  at the top of its body and again in the \<^verbatim>\<open>ResponseError\<close> handler, so it asks for
  the days 1, 3 and 5 back only: it finds nothing, records a user error and
  \<^verbatim>\<open>reconcile\<close> returns \<^verbatim>\<open>False\<close>.
\<close>

theorem reconcile_fx_walk_back_skips_days: "get_exchange_rate env_two_days_ago (fx_rate_date times_mid_month - 2) ''CZK'' ''EUR'' 15
      = Inr (Some (2563 / 100))
   \<and> fst (reconcile_fx env_two_days_ago times_mid_month None ''Czechia'' ''CZK'' store_cz)
      = Inl (Return False)
   \<and> get_state ''Czechia'' ''user_error'' None
        (snd (reconcile_fx env_two_days_ago times_mid_month None ''Czechia'' ''CZK'' store_cz))
      = Inr (Flag (VStr (msg_not_available times_mid_month)))
   \<and> get_state ''Czechia'' ''user_warning'' None
        (snd (reconcile_fx env_two_days_ago times_mid_month None ''Czechia'' ''CZK'' store_cz))
      = Inr (Flag (VStr []))"
proof -
  have nu: "\<not> is_uplusone times_mid_month" "fx_rate_date times_mid_month = 738594"
    by (simp_all add: times_mid_month_def)
  have run: "reconcile_fx env_two_days_ago times_mid_month None ''Czechia'' ''CZK'' store_cz
      = save_then ''Czechia'' ''user_error'' (msg_not_available times_mid_month)
          (Inl (Return False)) store_cz"
    by (simp add: reconcile_fx_def first_attempt_two walk_back_two_1 nu)
  show ?thesis
    unfolding run
    by (simp add: save_then_def save_state_flag [OF store_cz_fields(1) cz_doc store_cz_fields(2)]
        get_state_flag [where doc = "(default_doc [''Czechia''] rules_cz)(''Czechia'' \<mapsto> (default_cstate [AccInt 66791580])(''user_error'' \<mapsto> Flag (VStr (msg_not_available times_mid_month))))"]
        default_msgs rate_two_days_ago nu)
qed


lemma rate_day_before: "get_exchange_rate env_day_before d ''CZK'' ''EUR'' tmo =
   (if \<not> (738368 < d \<and> d < 738595) then Inl ValueError
    else if d = 738593 then Inr (Some (2563 / 100)) else Inl ResponseError)"
  by (simp add: get_exchange_rate_def env_day_before_def allowed_currs_def)

lemma rate_none: "get_exchange_rate env_no_rates d ''CZK'' ''EUR'' tmo =
   (if \<not> (738368 < d \<and> d < 738614) then Inl ValueError else Inl ResponseError)"
  by (simp add: get_exchange_rate_def env_no_rates_def allowed_currs_def)

lemma walk_back_day_before: "walk_back env_day_before times_mid_month ''CZK'' 1 p = Inr (Some (2563 / 100), 738593)"
  by (subst walk_back.simps) (simp add: rate_day_before times_mid_month_def)

lemma first_run: "reconcile_fx env_day_before times_mid_month None ''Czechia'' ''CZK'' store_cz
   = (Inr (2563 / 100),
      store_cz\<lparr>ent_states := Some ((default_doc [''Czechia''] rules_cz)(''Czechia'' \<mapsto>
          (default_cstate [AccInt 66791580])(''user_warning'' \<mapsto>
             Flag (VStr (warn_msg_nonupone times_mid_month 738593))))),
        rec_file := (rec_file store_cz)(''recovery.json'' \<mapsto>
          (default_doc [''Czechia''] rules_cz)(''Czechia'' \<mapsto>
          (default_cstate [AccInt 66791580])(''user_warning'' \<mapsto>
             Flag (VStr (warn_msg_nonupone times_mid_month 738593)))))\<rparr>)"
proof -
  have nu: "\<not> is_uplusone times_mid_month" "fx_rate_date times_mid_month = 738594"
    by (simp_all add: times_mid_month_def)
  have fa: "first_attempt env_day_before times_mid_month ''CZK'' = Inr None"
    by (simp add: first_attempt_def rate_day_before nu)
  show ?thesis
    by (simp add: reconcile_fx_def fa walk_back_day_before nu save_then_def
        save_state_flag [OF store_cz_fields(1) cz_doc store_cz_fields(2)])
qed

lemma second_run: "reconcile_fx env_no_rates times_uplusone None ''Czechia'' ''CZK'' store_after_first_run
   = (Inl (Return False),
      store_after_first_run\<lparr>ent_states := Some ((default_doc [''Czechia''] rules_cz)(''Czechia'' \<mapsto>
          (default_cstate [AccInt 66791580])(''user_warning'' \<mapsto>
             Flag (VStr (warn_msg_nonupone times_mid_month 738593)),
             ''user_error'' \<mapsto> Flag (VStr (warn_msg_upone times_uplusone))))),
        rec_file := (rec_file store_after_first_run)(''recovery.json'' \<mapsto>
          (default_doc [''Czechia''] rules_cz)(''Czechia'' \<mapsto>
          (default_cstate [AccInt 66791580])(''user_warning'' \<mapsto>
             Flag (VStr (warn_msg_nonupone times_mid_month 738593)),
             ''user_error'' \<mapsto> Flag (VStr (warn_msg_upone times_uplusone)))))\<rparr>)"
proof -
  have up: "is_uplusone times_uplusone" "fx_rate_date times_uplusone = 738610"
    by (simp_all add: times_uplusone_def)
  have fa: "first_attempt env_no_rates times_uplusone ''CZK'' = Inr None"
    by (simp add: first_attempt_def rate_none up)
  have s1: "ent_states store_after_first_run = Some ((default_doc [''Czechia''] rules_cz)(''Czechia'' \<mapsto>
          (default_cstate [AccInt 66791580])(''user_warning'' \<mapsto>
             Flag (VStr (warn_msg_nonupone times_mid_month 738593)))))"
     "rec_path store_after_first_run = Some ''recovery.json''"
    by (simp_all add: store_after_first_run_def first_run store_cz_fields)
  show ?thesis
    by (simp add: reconcile_fx_def fa up save_then_def
        save_state_flag [OF s1(1) _ s1(2)])
qed

text \<open>
  Claim C9 is what the assertion of \<^verbatim>\<open>send_notification\<close> (line 1564) demands, and
  the code breaks it on a resumed run. The first run records a warning (a prior day's rate
  was used) and goes on; when it fails later, the store keeps the warning. The second run,
  on the day after period end with no rate published, records an error; nothing clears the
  warning. \<^verbatim>\<open>main\<close> then calls \<^verbatim>\<open>send_notification\<close> without user parameters: both
  messages are read from the store, both are non-empty, and the assertion fails.
\<close>

theorem warning_and_error_both_set_on_resume: "fst (reconcile_fx env_day_before times_mid_month None ''Czechia'' ''CZK'' store_cz)
      = Inr (2563 / 100)
   \<and> fst (reconcile_fx env_no_rates times_uplusone None ''Czechia'' ''CZK'' store_after_first_run)
      = Inl (Return False)
   \<and> get_state ''Czechia'' ''user_warning'' None store_after_second_run
      = Inr (Flag (VStr (warn_msg_nonupone times_mid_month 738593)))
   \<and> get_state ''Czechia'' ''user_error'' None store_after_second_run
      = Inr (Flag (VStr (warn_msg_upone times_uplusone)))
   \<and> not_blank (Flag (VStr (warn_msg_nonupone times_mid_month 738593)))
   \<and> not_blank (Flag (VStr (warn_msg_upone times_uplusone)))
   \<and> send_notification True (Some rules_cz) (Some ''Czechia'') None store_after_second_run
      = Inl AssertionError"
proof -
  have nb: "not_blank (Flag (VStr (warn_msg_nonupone times_mid_month 738593)))"
      "not_blank (Flag (VStr (warn_msg_upone times_uplusone)))"
    by (simp_all add: not_blank_def warn_msg_nonupone_def warn_msg_upone_def msg_not_available_def)
  have g: "get_state ''Czechia'' ''user_warning'' None store_after_second_run
      = Inr (Flag (VStr (warn_msg_nonupone times_mid_month 738593)))"
     "get_state ''Czechia'' ''user_error'' None store_after_second_run
      = Inr (Flag (VStr (warn_msg_upone times_uplusone)))"
    by (simp_all add: store_after_second_run_def second_run get_state_def)
  have r: "rules_cz ''Czechia'' = Some \<lparr> company_code = ''1054'', accounts = [AccInt 66791580],
         local_currency = ''CZK'', accountants = [(''accountant@ledvance.com'', True)] \<rparr>"
    by (simp add: rules_cz_def)
  have "send_notification True (Some rules_cz) (Some ''Czechia'') None store_after_second_run
      = Inl AssertionError"
    using nb by (simp add: send_notification_def notification_msgs_def r g)
  then show ?thesis
    using nb g by (simp add: first_run second_run)
qed

subsection \<open>Currency correction of the local-entity bonuses\<close>

lemma add_account_core:
  "map src_row (add_account kv t) = map src_row t"
  "map corr_to_lc (add_account kv t) = map corr_to_lc t"
  "map lc_open_accr (add_account kv t) = map lc_open_accr t"
  by (simp_all add: add_account_def Let_def)

lemma fold_add_account_core:
  "map src_row (fold add_account ts t) = map src_row t
   \<and> map corr_to_lc (fold add_account ts t) = map corr_to_lc t
   \<and> map lc_open_accr (fold add_account ts t) = map lc_open_accr t"
  by (induction ts arbitrary: t) (simp_all add: add_account_core)

lemma currency_corrections_row:
  "c \<in> set (currency_corrections loc_curr ex_rate deduped) \<Longrightarrow>
     src_row c \<in> set deduped
     \<and> corr_to_lc c = (if ex_rate \<noteq> 1 \<and> le_currency (src_row c) \<noteq> loc_curr
          then amt_sub (amt_mul (le_open_accruals (src_row c)) (Some ex_rate))
                 (le_open_accruals (src_row c))
          else Some 0)
     \<and> lc_open_accr c = amt_add (le_open_accruals (src_row c)) (corr_to_lc c)"
  by (auto simp: currency_corrections_def Let_def split: if_splits)

lemma currency_corrections_src:
  "map src_row (currency_corrections loc_curr ex_rate deduped) = deduped"
  by (auto simp: currency_corrections_def Let_def comp_def intro!: map_idI)

lemma same_core:
  assumes "map src_row xs = map src_row ys" "map corr_to_lc xs = map corr_to_lc ys"
    "map lc_open_accr xs = map lc_open_accr ys" "c \<in> set xs"
  shows "\<exists>c' \<in> set ys. src_row c' = src_row c \<and> corr_to_lc c' = corr_to_lc c
      \<and> lc_open_accr c' = lc_open_accr c"
proof -
  from assms(4) obtain i where i: "i < length xs" "xs ! i = c"
    by (auto simp: in_set_conv_nth)
  have len: "length ys = length xs"
    using assms(1) by (metis length_map)
  have "src_row (ys ! i) = src_row c" "corr_to_lc (ys ! i) = corr_to_lc c"
      "lc_open_accr (ys ! i) = lc_open_accr c"
    using assms(1-3) i len by (metis nth_map)+
  moreover have "ys ! i \<in> set ys" using i len by simp
  ultimately show ?thesis by blast
qed

lemma calculate_le_row:
  assumes "c \<in> set (calculate_le_bonus_data txt_summs le_data loc_curr ex_rate)"
  shows "src_row c \<in> set (drop_duplicates le_agreement [] le_data)
     \<and> corr_to_lc c = (if ex_rate \<noteq> 1 \<and> le_currency (src_row c) \<noteq> loc_curr
          then amt_sub (amt_mul (le_open_accruals (src_row c)) (Some ex_rate))
                 (le_open_accruals (src_row c))
          else Some 0)
     \<and> lc_open_accr c = amt_add (le_open_accruals (src_row c)) (corr_to_lc c)"
proof -
  let ?s2 = "currency_corrections loc_curr ex_rate (drop_duplicates le_agreement [] le_data)"
  let ?s3 = "fold add_account txt_summs ?s2"
  let ?out = "calculate_le_bonus_data txt_summs le_data loc_curr ex_rate"
  have out: "?out = map (\<lambda>c. c\<lparr>difference := amt_round2 (amt_sub (difference c) (lc_open_accr c))\<rparr>) ?s3"
    by (simp add: calculate_le_bonus_data_def Let_def)
  have "map src_row ?out = map src_row ?s2" "map corr_to_lc ?out = map corr_to_lc ?s2"
     "map lc_open_accr ?out = map lc_open_accr ?s2"
    using fold_add_account_core [of txt_summs ?s2] by (simp_all add: out comp_def)
  from same_core [OF this assms]
  obtain c' where "c' \<in> set ?s2" "src_row c' = src_row c" "corr_to_lc c' = corr_to_lc c"
      "lc_open_accr c' = lc_open_accr c"
    by blast
  with currency_corrections_row [of c' loc_curr ex_rate] show ?thesis
    by metis
qed

lemma calculate_le_src: "map src_row (calculate_le_bonus_data txt_summs le_data loc_curr ex_rate)
   = drop_duplicates le_agreement [] le_data"
  using fold_add_account_core [of txt_summs
      "currency_corrections loc_curr ex_rate (drop_duplicates le_agreement [] le_data)"]
  by (simp add: calculate_le_bonus_data_def Let_def comp_def currency_corrections_src)

text \<open>
  Claim C3: \<^verbatim>\<open>calculate_le_bonus_data\<close> keeps the first row of every agreement, and
  for every row of its result: when the exchange rate is not 1.0 and the row's currency is
  not the local currency, \<^verbatim>\<open>Corr_to_LC\<close> is accrual * rate - accrual; when the rate is
  exactly 1.0, the correction is 0.0 whatever the currency (as it is for a row in the local
  currency); \<^verbatim>\<open>LC_Open_Accr\<close> is always accrual + correction.
\<close>

theorem le_currency_correction:
  "map src_row (calculate_le_bonus_data txt_summs le_data loc_curr ex_rate)
     = drop_duplicates le_agreement [] le_data
   \<and> (\<forall>c \<in> set (calculate_le_bonus_data txt_summs le_data loc_curr ex_rate).
        (ex_rate \<noteq> 1 \<and> le_currency (src_row c) \<noteq> loc_curr \<longrightarrow>
           corr_to_lc c = amt_sub (amt_mul (le_open_accruals (src_row c)) (Some ex_rate))
                            (le_open_accruals (src_row c)))
      \<and> (ex_rate = 1 \<or> le_currency (src_row c) = loc_curr \<longrightarrow> corr_to_lc c = Some 0)
      \<and> lc_open_accr c = amt_add (le_open_accruals (src_row c)) (corr_to_lc c))"
  using calculate_le_row [of _ txt_summs le_data loc_curr ex_rate]
    calculate_le_src [of txt_summs le_data loc_curr ex_rate]
  by (auto split: if_splits)

theorem le_currency_correction_witness:
  "corr_to_lc (hd (calculate_le_bonus_data [] [le_row_example] ''CZK'' (105 / 100))) = Some 50
   \<and> lc_open_accr (hd (calculate_le_bonus_data [] [le_row_example] ''CZK'' (105 / 100)))
       = Some 1050
   \<and> corr_to_lc (hd (calculate_le_bonus_data [] [le_row_example] ''CZK'' 1)) = Some 0
   \<and> lc_open_accr (hd (calculate_le_bonus_data [] [le_row_example] ''CZK'' 1)) = Some 1000"
proof -
  let ?a = "calculate_le_bonus_data [] [le_row_example] ''CZK'' (105 / 100)"
  let ?b = "calculate_le_bonus_data [] [le_row_example] ''CZK'' 1"
  have src: "map src_row ?a = [le_row_example]" "map src_row ?b = [le_row_example]"
    using le_currency_correction [of "[]" "[le_row_example]" "''CZK''"] by simp_all
  then have mem: "hd ?a \<in> set ?a" "hd ?b \<in> set ?b"
      and row: "src_row (hd ?a) = le_row_example" "src_row (hd ?b) = le_row_example"
    by (auto simp: map_eq_Cons_conv)
  have cur: "le_currency le_row_example \<noteq> ''CZK''"
      "le_open_accruals le_row_example = Some 1000"
    by (simp_all add: le_row_example_def)
  have ne: "(105 / 100 :: rat) \<noteq> 1" by simp
  from le_currency_correction [of "[]" "[le_row_example]" "''CZK''" "105 / 100"] mem(1)
  have "corr_to_lc (hd ?a) = amt_sub (amt_mul (Some 1000) (Some (105 / 100))) (Some 1000)"
      "lc_open_accr (hd ?a) = amt_add (Some 1000) (corr_to_lc (hd ?a))"
    using row cur ne by auto
  then have a: "corr_to_lc (hd ?a) = Some 50" "lc_open_accr (hd ?a) = Some 1050"
    by (simp_all add: amt_sub_def amt_mul_def amt_add_def)
  from le_currency_correction [of "[]" "[le_row_example]" "''CZK''" 1] mem(2)
  have "corr_to_lc (hd ?b) = Some 0"
      "lc_open_accr (hd ?b) = amt_add (Some 1000) (corr_to_lc (hd ?b))"
    using row cur by auto
  then have b: "corr_to_lc (hd ?b) = Some 0" "lc_open_accr (hd ?b) = Some 1000"
    by (simp_all add: amt_add_def)
  from a b show ?thesis by simp
qed

subsection \<open>Agreement-state validation\<close>

lemma set_unique: "set (drop_duplicates (\<lambda>x. x) seen xs) = set xs - set seen"
  by (induction xs arbitrary: seen) auto

lemma check_rows_flagged:
  "check_rows opn rows = sort_key (\<lambda>c. status_rank (status c)) (map (flag_by_claim opn) rows)"
proof -
  have "(\<lambda>c. if nonzero (t_amount (row c)) \<and> not_in (t_agreement (row c)) opn \<and> status c \<noteq> ''x''
             then c\<lparr>status := ''CHECK''\<rparr> else c)
        ((\<lambda>c. if missing_ids (row c) \<and> nonzero (t_amount (row c)) then c\<lparr>status := ''x''\<rparr> else c)
           \<lparr> row = r, status = [] \<rparr>) = flag_by_claim opn r" for r
    by (simp add: flag_by_claim_def)
  then show ?thesis
    by (simp add: check_rows_def Let_def comp_def)
qed

lemma row_flag_by_claim: "row (flag_by_claim opn r) = r"
  by (simp add: flag_by_claim_def)

lemma check_rows_props:
  "mset (map row (check_rows opn rows)) = mset rows
   \<and> (\<forall>c \<in> set (check_rows opn rows). c = flag_by_claim opn (row c))"
  by (auto simp: check_rows_flagged row_flag_by_claim multiset.map_comp comp_def)

lemma not_in_unique:
  "not_in a (drop_duplicates (\<lambda>x. x) [] le_bon
       @ (case hq_bon of None \<Rightarrow> [] | Some hq \<Rightarrow> drop_duplicates (\<lambda>x. x) [] hq))
   = not_in a (le_bon @ (case hq_bon of None \<Rightarrow> [] | Some hq \<Rightarrow> hq))"
  by (auto simp: not_in_def set_unique split: option.splits)

text \<open>
  Claim C5: \<^verbatim>\<open>check_agreement_states\<close> returns, for every account of
  \<^verbatim>\<open>txt_summs\<close>, the same lines in another order, each with one status. A line with a
  non-zero amount and a missing Condition, Category, Customer or Agreement has
  \<^verbatim>\<open>x\<close>; a line with a non-zero amount, all four fields present and an agreement
  that is in neither the local-entity extract nor (when present) the head-quarter extract
  has \<^verbatim>\<open>CHECK\<close>; every other line, in particular every line with amount 0, has the
  empty status. A line has one status, so never both flags.
\<close>

theorem agreement_state_flags:
  "map fst (check_agreement_states txt_summs le_bon hq_bon) = map fst txt_summs
   \<and> (\<forall>kv \<in> set (check_agreement_states txt_summs le_bon hq_bon).
        \<exists>rows. (fst kv, rows) \<in> set txt_summs
          \<and> mset (map row (snd kv)) = mset rows
          \<and> (\<forall>c \<in> set (snd kv).
               (nonzero (t_amount (row c)) \<and> missing_ids (row c) \<longrightarrow> status c = ''x'')
             \<and> (nonzero (t_amount (row c)) \<and> \<not> missing_ids (row c)
                  \<and> not_in (t_agreement (row c))
                      (le_bon @ (case hq_bon of None \<Rightarrow> [] | Some hq \<Rightarrow> hq))
                \<longrightarrow> status c = ''CHECK'')
             \<and> (nonzero (t_amount (row c)) \<and> \<not> missing_ids (row c)
                  \<and> \<not> not_in (t_agreement (row c))
                      (le_bon @ (case hq_bon of None \<Rightarrow> [] | Some hq \<Rightarrow> hq))
                \<longrightarrow> status c = [])
             \<and> (t_amount (row c) = Some 0 \<longrightarrow> status c = [])
             \<and> \<not> (status c = ''x'' \<and> status c = ''CHECK'')))"
proof (intro conjI ballI)
  show "map fst (check_agreement_states txt_summs le_bon hq_bon) = map fst txt_summs"
    by (simp add: check_agreement_states_def Let_def comp_def)
next
  fix kv
  assume "kv \<in> set (check_agreement_states txt_summs le_bon hq_bon)"
  then obtain k rows where src: "(k, rows) \<in> set txt_summs"
    and kv: "kv = (k, check_rows (drop_duplicates (\<lambda>x. x) [] le_bon
          @ (case hq_bon of None \<Rightarrow> [] | Some hq \<Rightarrow> drop_duplicates (\<lambda>x. x) [] hq)) rows)"
    by (auto simp: check_agreement_states_def Let_def)
  let ?opn = "drop_duplicates (\<lambda>x. x) [] le_bon
          @ (case hq_bon of None \<Rightarrow> [] | Some hq \<Rightarrow> drop_duplicates (\<lambda>x. x) [] hq)"
  have perm: "mset (map row (snd kv)) = mset rows"
    and each: "\<forall>c \<in> set (snd kv). c = flag_by_claim ?opn (row c)"
    using check_rows_props [of ?opn rows] by (simp_all add: kv)
  have flags: "(nonzero (t_amount (row c)) \<and> missing_ids (row c) \<longrightarrow> status c = ''x'')
             \<and> (nonzero (t_amount (row c)) \<and> \<not> missing_ids (row c)
                  \<and> not_in (t_agreement (row c))
                      (le_bon @ (case hq_bon of None \<Rightarrow> [] | Some hq \<Rightarrow> hq))
                \<longrightarrow> status c = ''CHECK'')
             \<and> (nonzero (t_amount (row c)) \<and> \<not> missing_ids (row c)
                  \<and> \<not> not_in (t_agreement (row c))
                      (le_bon @ (case hq_bon of None \<Rightarrow> [] | Some hq \<Rightarrow> hq))
                \<longrightarrow> status c = [])
             \<and> (t_amount (row c) = Some 0 \<longrightarrow> status c = [])
             \<and> \<not> (status c = ''x'' \<and> status c = ''CHECK'')" if "c \<in> set (snd kv)" for c
  proof -
    from each that have c: "c = flag_by_claim ?opn (row c)" by blast
    have st: "status c = (if nonzero (t_amount (row c)) \<and> missing_ids (row c) then ''x''
        else if nonzero (t_amount (row c))
            \<and> not_in (t_agreement (row c))
                 (le_bon @ (case hq_bon of None \<Rightarrow> [] | Some hq \<Rightarrow> hq))
        then ''CHECK'' else [])"
      by (subst c) (simp add: flag_by_claim_def not_in_unique)
    show ?thesis
      by (simp add: st nonzero_def)
  qed
  from src perm flags
  show "\<exists>rows. (fst kv, rows) \<in> set txt_summs
          \<and> mset (map row (snd kv)) = mset rows
          \<and> (\<forall>c \<in> set (snd kv).
               (nonzero (t_amount (row c)) \<and> missing_ids (row c) \<longrightarrow> status c = ''x'')
             \<and> (nonzero (t_amount (row c)) \<and> \<not> missing_ids (row c)
                  \<and> not_in (t_agreement (row c))
                      (le_bon @ (case hq_bon of None \<Rightarrow> [] | Some hq \<Rightarrow> hq))
                \<longrightarrow> status c = ''CHECK'')
             \<and> (nonzero (t_amount (row c)) \<and> \<not> missing_ids (row c)
                  \<and> \<not> not_in (t_agreement (row c))
                      (le_bon @ (case hq_bon of None \<Rightarrow> [] | Some hq \<Rightarrow> hq))
                \<longrightarrow> status c = [])
             \<and> (t_amount (row c) = Some 0 \<longrightarrow> status c = [])
             \<and> \<not> (status c = ''x'' \<and> status c = ''CHECK''))"
    by (intro exI [of _ rows]) (simp add: kv)
qed

theorem agreement_state_flags_witness:
  "check_agreement_states [(''66791580'', txt_rows_example)] [11111111] None
     = [(''66791580'',
         [\<lparr> row = txt_rows_example ! 1, status = ''x'' \<rparr>,
          \<lparr> row = txt_rows_example ! 0, status = ''CHECK'' \<rparr>,
          \<lparr> row = txt_rows_example ! 2, status = [] \<rparr>])]
   \<and> nonzero (t_amount (txt_rows_example ! 1)) \<and> missing_ids (txt_rows_example ! 1)
   \<and> nonzero (t_amount (txt_rows_example ! 0)) \<and> \<not> missing_ids (txt_rows_example ! 0)
   \<and> not_in (t_agreement (txt_rows_example ! 0)) [11111111]
   \<and> t_amount (txt_rows_example ! 2) = Some 0"
proof -
  let ?res = "check_agreement_states [(''66791580'', txt_rows_example)] [11111111] None"
  have rows: "nonzero (t_amount (txt_rows_example ! 1))" "missing_ids (txt_rows_example ! 1)"
      "nonzero (t_amount (txt_rows_example ! 0))" "\<not> missing_ids (txt_rows_example ! 0)"
      "not_in (t_agreement (txt_rows_example ! 0)) [11111111]"
      "t_amount (txt_rows_example ! 2) = Some 0"
    by (simp_all add: txt_rows_example_def nonzero_def missing_ids_def not_in_def)
  have order: "map (\<lambda>kv. (fst kv, map row (snd kv))) ?res
      = [(''66791580'', [txt_rows_example ! 1, txt_rows_example ! 0, txt_rows_example ! 2])]"
    by (simp add: check_agreement_states_def check_rows_def txt_rows_example_def Let_def
        nonzero_def missing_ids_def not_in_def status_rank_def)
  then obtain c1 c2 c3 where res: "?res = [(''66791580'', [c1, c2, c3])]"
    and r: "row c1 = txt_rows_example ! 1" "row c2 = txt_rows_example ! 0"
      "row c3 = txt_rows_example ! 2"
    by (auto simp: map_eq_Cons_conv)
  from agreement_state_flags [of "[(''66791580'', txt_rows_example)]" "[11111111]" None]
  have "status c1 = ''x''" "status c2 = ''CHECK''" "status c3 = []"
    using rows r by (auto simp: res)
  with r have "c1 = \<lparr> row = txt_rows_example ! 1, status = ''x'' \<rparr>"
      "c2 = \<lparr> row = txt_rows_example ! 0, status = ''CHECK'' \<rparr>"
      "c3 = \<lparr> row = txt_rows_example ! 2, status = [] \<rparr>"
    by auto
  with res rows show ?thesis by simp
qed

subsection \<open>Reconciliation summary\<close>



















subsection \<open>Fields derived from the text of a record\<close>

lemma token_none: "\<not> has_four toks \<Longrightarrow> token toks i = None"
  by (simp add: token_def)

lemma null_unless_len_Some: "null_unless_len n s = Some c \<Longrightarrow> length c = n \<and> s = Some c"
  by (auto simp: null_unless_len_def split: option.splits if_splits)

lemma derive_opt_none:
  "\<not> has_four (tokens_of txt) \<Longrightarrow>
     derive_opt txt = \<lparr> d_condition = None, d_category = None, d_customer = None,
                        d_agreement = None, d_note = None \<rparr>"
  by (simp add: derive_opt_def condition_cast_def category_cast_def token_none null_unless_len_def)

lemma derive_std_none:
  "\<not> has_four (tokens_of txt) \<Longrightarrow>
     derive_std txt = \<lparr> d_condition = None, d_category = None, d_customer = None,
                        d_agreement = None, d_note = None \<rparr>"
  by (simp add: derive_std_def token_none null_unless_len_def)

lemma derive_opt_shape:
  "d_condition (derive_opt txt) = Some c \<Longrightarrow> length c = 4"
  "d_category (derive_opt txt) = Some c \<Longrightarrow> length c = 2"
  by (auto simp: derive_opt_def Let_def dest: null_unless_len_Some)

lemma derive_std_shape:
  "d_condition (derive_std txt) = Some c \<Longrightarrow> length c = 4"
  "d_category (derive_std txt) = Some c \<Longrightarrow> length c = 2"
  by (auto simp: derive_std_def Let_def dest: null_unless_len_Some)

lemma pandas_example_fields:
  "to_uint32 pandas_example = numeral_cell"
  "to_uint64 pandas_example = numeral_cell"
  "to_int64 pandas_example = numeral_cell"
  "to_float64 pandas_example = amount_cell"
  "to_date pandas_example = Inr"
  "to_date_coerce pandas_example = (\<lambda>s. s)"
  "cast_ids pandas_example = Inr"
  "full_setitem_inplace pandas_example"
  by (simp_all add: pandas_example_def)

lemma is_space_simps:
  "is_space CHR '' ''" "\<not> is_space CHR ''Z''" "\<not> is_space CHR ''B''"
  "\<not> is_space CHR ''0''" "\<not> is_space CHR ''1''" "\<not> is_space CHR ''2''"
  "\<not> is_space CHR ''n''" "\<not> is_space CHR ''e''" "\<not> is_space CHR ''o''"
  "\<not> is_space CHR ''t''" "is_space (CHR 0x09)"
  by (simp_all add: is_space_def)

text \<open>
  Claim C8. In both parsers, \<^verbatim>\<open>_parse_data_opt\<close> and \<^verbatim>\<open>_parse_data\<close>, and for every
  record: when the text of the record is missing or splits on \<open>;\<close> into fewer than 4
  tokens, Condition, Category, Customer, Agreement and Note are all null; and a
  Condition that is kept has 4 characters, a Category that is kept has 2. (A missing
  value stays missing under the numeric conversion, as in pandas.)
\<close>

theorem derived_text_fields:
  assumes "to_uint32 ops None = Inr None"
  shows "(\<not> has_four (tokens_of (opt_text r)) \<longrightarrow>
            p_condition (parse_row_opt ops r) = None \<and> p_category (parse_row_opt ops r) = None
          \<and> p_customer (parse_row_opt ops r) = None \<and> p_agreement (parse_row_opt ops r) = None
          \<and> p_note (parse_row_opt ops r) = None)
       \<and> (\<not> has_four (tokens_of (std_text r)) \<longrightarrow>
            p_condition (parse_row_std ops r) = None \<and> p_category (parse_row_std ops r) = None
          \<and> p_customer (parse_row_std ops r) = None \<and> p_agreement (parse_row_std ops r) = None
          \<and> p_note (parse_row_std ops r) = None)
       \<and> (\<forall>c. p_condition (parse_row_opt ops r) = Some c \<longrightarrow> length c = 4)
       \<and> (\<forall>c. p_category (parse_row_opt ops r) = Some c \<longrightarrow> length c = 2)
       \<and> (\<forall>c. p_condition (parse_row_std ops r) = Some c \<longrightarrow> length c = 4)
       \<and> (\<forall>c. p_category (parse_row_std ops r) = Some c \<longrightarrow> length c = 2)"
proof -
  have a: "\<not> has_four (tokens_of (opt_text r)) \<Longrightarrow>
            p_condition (parse_row_opt ops r) = None \<and> p_category (parse_row_opt ops r) = None
          \<and> p_customer (parse_row_opt ops r) = None \<and> p_agreement (parse_row_opt ops r) = None
          \<and> p_note (parse_row_opt ops r) = None"
    using assms by (simp add: parse_row_opt_def derive_opt_none cell_def)
  have b: "\<not> has_four (tokens_of (std_text r)) \<Longrightarrow>
            p_condition (parse_row_std ops r) = None \<and> p_category (parse_row_std ops r) = None
          \<and> p_customer (parse_row_std ops r) = None \<and> p_agreement (parse_row_std ops r) = None
          \<and> p_note (parse_row_std ops r) = None"
    using assms by (simp add: parse_row_std_def derive_std_none cell_def)
  have c: "\<And>c. p_condition (parse_row_opt ops r) = Some c \<Longrightarrow> length c = 4"
    by (simp add: parse_row_opt_def Let_def derive_opt_shape)
  have d: "\<And>c. p_category (parse_row_opt ops r) = Some c \<Longrightarrow> length c = 2"
    by (simp add: parse_row_opt_def Let_def derive_opt_shape)
  have e: "\<And>c. p_condition (parse_row_std ops r) = Some c \<Longrightarrow> length c = 4"
    by (simp add: parse_row_std_def Let_def derive_std_shape)
  have f: "\<And>c. p_category (parse_row_std ops r) = Some c \<Longrightarrow> length c = 2"
    by (simp add: parse_row_std_def Let_def derive_std_shape)
  from a b c d e f show ?thesis by blast
qed

theorem derived_text_fields_witness:
  "to_uint32 pandas_example None = Inr None
   \<and> \<not> has_four (tokens_of (opt_text (row_with_text ''ZB01;B1;1001'')))
   \<and> p_condition (parse_row_opt pandas_example (row_with_text ''ZB01;B1;1001'')) = None
   \<and> p_customer (parse_row_opt pandas_example (row_with_text ''ZB01;B1;1001'')) = None
   \<and> p_condition (parse_row_opt pandas_example (row_with_text ''ZB01;B1;1001;2002;note''))
       = Some ''ZB01''
   \<and> p_category (parse_row_std pandas_example (row_with_text ''ZB01;B1;1001;2002;note''))
       = Some ''B1''
   \<and> length ''ZB01'' = 4 \<and> length ''B1'' = 2"
proof -
  let ?short = "row_with_text ''ZB01;B1;1001''"
  let ?long = "row_with_text ''ZB01;B1;1001;2002;note''"
  have h: "to_uint32 pandas_example None = Inr None"
    by (simp add: pandas_example_fields numeral_cell_def)
  have few: "\<not> has_four (tokens_of (opt_text ?short))"
    by (simp add: opt_text_def row_with_text_def blank_to_na_def tokens_of_def has_four_def)
  have cond: "p_condition (parse_row_opt pandas_example ?long) = Some ''ZB01''"
    by (simp add: parse_row_opt_def derive_opt_def condition_cast_def opt_text_def
        row_with_text_def blank_to_na_def tokens_of_def has_four_def token_def str_get_def
        null_unless_len_def strip_blanks_def py_strip_def strip_with_def is_space_simps)
  have categ: "p_category (parse_row_std pandas_example ?long) = Some ''B1''"
    by (simp add: parse_row_std_def derive_std_def std_text_def
        row_with_text_def blank_to_na_def tokens_of_def has_four_def token_def str_get_def
        null_unless_len_def py_strip_def strip_with_def is_space_simps)
  note short = derived_text_fields [OF h, of ?short, THEN conjunct1, rule_format, OF few]
  note long = derived_text_fields [OF h, of ?long]
  from long cond have l4: "length ''ZB01'' = 4" by blast
  from long categ have l2: "length ''B1'' = 2" by blast
  from h few short cond categ l4 l2 show ?thesis by blast
qed

subsection \<open>Chunked conversion of FBL3N data\<close>

lemma first_error_None:
  "first_error f xs = None \<longleftrightarrow> (\<forall>x \<in> set xs. \<exists>v. f x = Inr v)"
  by (induction xs) (auto split: sum.splits)

lemma first_some_None: "first_some es = None \<longleftrightarrow> (\<forall>e \<in> set es. e = None)"
  by (induction es rule: first_some.induct) auto

lemma concat_sections: "concat (sections ks xs) = take (sum_list ks) xs"
proof (induction ks arbitrary: xs)
  case Nil
  then show ?case by simp
next
  case (Cons k ks)
  show ?case by (simp add: Cons.IH take_add)
qed

lemma concat_array_split:
  assumes "0 < n"
  shows "concat (array_split xs n) = xs"
proof -
  have "length xs mod n \<le> n" using assms by (simp add: less_imp_le)
  hence "(length xs mod n) * (length xs div n + 1) + (n - length xs mod n) * (length xs div n)
         = n * (length xs div n) + length xs mod n"
    by (simp add: algebra_simps diff_mult_distrib2 flip: add_mult_distrib)
  thus ?thesis
    by (simp add: array_split_def Let_def concat_sections sum_list_replicate)
qed

lemma pool_map_rowwise:
  assumes "\<forall>c \<in> set cs. \<forall>ps. (f c = Inr ps \<longleftrightarrow> (\<forall>r \<in> set c. ok r) \<and> ps = map g c)"
  shows "pool_map f cs = Inr pss \<longleftrightarrow> (\<forall>r \<in> set (concat cs). ok r) \<and> pss = map (map g) cs"
  using assms
proof (induction cs arbitrary: pss)
  case Nil
  then show ?case by auto
next
  case (Cons c cs)
  have ih: "\<And>pss. pool_map f cs = Inr pss \<longleftrightarrow> (\<forall>r \<in> set (concat cs). ok r) \<and> pss = map (map g) cs"
    using Cons by simp
  have hd: "\<And>ps. f c = Inr ps \<longleftrightarrow> (\<forall>r \<in> set c. ok r) \<and> ps = map g c"
    using Cons.prems by simp
  show ?case
  proof (cases "f c")
    case (Inl e)
    with hd [of "map g c"] show ?thesis by auto
  next
    case (Inr ps)
    with hd [of ps] have okc: "\<forall>r \<in> set c. ok r" and ps: "ps = map g c" by auto
    show ?thesis
    proof (cases "pool_map f cs")
      case (Inl e)
      with ih [of "map (map g) cs"] Inr show ?thesis by auto
    next
      case (Inr pss')
      with ih [of pss'] \<open>f c = Inr ps\<close> okc ps show ?thesis by auto
    qed
  qed
qed

lemma no_new_category:
  assumes "\<forall>c \<in> set col. case c of None \<Rightarrow> True | Some v \<Rightarrow> py_strip v = v"
  shows "strip_categorical ops col = None"
proof -
  have "\<not> new_category col"
    unfolding new_category_def using assms by (auto split: option.splits)
  thus ?thesis by (simp add: strip_categorical_def)
qed

lemma succeeds_ex: "succeeds x \<longleftrightarrow> (\<exists>v. x = Inr v)"
  by (cases x) (auto simp: succeeds_def)

lemma parse_data_opt_Inr:
  "parse_data_opt ops data = Inr ps \<longleftrightarrow>
     (\<forall>r \<in> set data. cells_ok_opt ops r)
     \<and> strip_categorical ops (map (\<lambda>r. condition_cast (opt_text r)) data) = None
     \<and> strip_categorical ops (map (\<lambda>r. category_cast (opt_text r)) data) = None
     \<and> ps = map (parse_row_opt ops) data"
proof -
  let ?es = "[first_error (\<lambda>r. to_uint64 ops (r_clearing_document r)) data,
         first_error (\<lambda>r. to_float64 ops (opt_amount_text r)) data,
         first_error (\<lambda>r. to_date ops (r_document_date r)) data,
         first_error (\<lambda>r. to_date ops (r_posting_date r)) data,
         first_error (\<lambda>r. to_uint32 ops (d_customer (derive_opt (opt_text r)))) data,
         first_error (\<lambda>r. to_uint32 ops (d_agreement (derive_opt (opt_text r)))) data,
         strip_categorical ops (map (\<lambda>r. condition_cast (opt_text r)) data),
         strip_categorical ops (map (\<lambda>r. category_cast (opt_text r)) data)]"
  have "parse_data_opt ops data = Inr ps \<longleftrightarrow>
          first_some ?es = None \<and> ps = map (parse_row_opt ops) data"
    by (auto simp: parse_data_opt_def split: option.splits)
  also have "first_some ?es = None \<longleftrightarrow>
     (\<forall>r \<in> set data. cells_ok_opt ops r)
     \<and> strip_categorical ops (map (\<lambda>r. condition_cast (opt_text r)) data) = None
     \<and> strip_categorical ops (map (\<lambda>r. category_cast (opt_text r)) data) = None"
    unfolding first_some_None
    by (simp add: first_error_None cells_ok_opt_def succeeds_ex) blast
  finally show ?thesis by blast
qed


lemma parse_data_std_Inr:
  "parse_data_std ops data = Inr ps \<longleftrightarrow>
     (\<forall>r \<in> set data. cells_ok_std ops r) \<and> ps = map (parse_row_std ops) data"
proof -
  let ?es = "[first_error (\<lambda>r. to_int64 ops (map_option py_strip (r_clearing_document r))) data,
         first_error (\<lambda>r. cast_ids ops (r_ids r)) data,
         first_error (\<lambda>r. to_float64 ops (std_amount_text r)) data,
         first_error (\<lambda>r. to_uint32 ops (d_customer (derive_std (std_text r)))) data,
         first_error (\<lambda>r. to_uint32 ops (d_agreement (derive_std (std_text r)))) data]"
  have "parse_data_std ops data = Inr ps \<longleftrightarrow>
          first_some ?es = None \<and> ps = map (parse_row_std ops) data"
    by (auto simp: parse_data_std_def split: option.splits)
  also have "first_some ?es = None \<longleftrightarrow> (\<forall>r \<in> set data. cells_ok_std ops r)"
    unfolding first_some_None
    by (simp add: first_error_None cells_ok_std_def succeeds_ex) blast
  finally show ?thesis by blast
qed

lemma chunks_rowwise:
  assumes n: "0 < n"
    and rowwise: "\<forall>c. set c \<subseteq> set data \<longrightarrow>
                    (\<forall>ps. f c = Inr ps \<longleftrightarrow> (\<forall>r \<in> set c. ok r) \<and> ps = map g c)"
  shows "pool_map f (array_split data n) = Inr pss \<longleftrightarrow>
           (\<forall>r \<in> set data. ok r) \<and> pss = map (map g) (array_split data n)"
proof -
  have sub: "\<forall>c \<in> set (array_split data n). set c \<subseteq> set data"
  proof
    fix c assume "c \<in> set (array_split data n)"
    hence "set c \<subseteq> set (concat (array_split data n))" by auto
    thus "set c \<subseteq> set data" by (simp add: concat_array_split [OF n])
  qed
  have "\<forall>c \<in> set (array_split data n). \<forall>ps. (f c = Inr ps \<longleftrightarrow> (\<forall>r \<in> set c. ok r) \<and> ps = map g c)"
    using sub rowwise by blast
  from pool_map_rowwise [OF this, of pss] show ?thesis
    by (simp only: concat_array_split [OF n])
qed

lemma chunked_same_rows:
  assumes n: "0 < n"
    and rowwise: "\<forall>c. set c \<subseteq> set data \<longrightarrow>
                    (\<forall>ps. f c = Inr ps \<longleftrightarrow> (\<forall>r \<in> set c. ok r) \<and> ps = map g c)"
  shows "(\<exists>pss. pool_map f (array_split data n) = Inr pss \<and> concat pss = ps) \<longleftrightarrow> f data = Inr ps"
proof -
  have whole: "f data = Inr ps \<longleftrightarrow> (\<forall>r \<in> set data. ok r) \<and> ps = map g data"
    using rowwise by blast
  have cc: "concat (map (map g) (array_split data n)) = map g data"
    by (simp add: concat_array_split [OF n] flip: map_concat)
  show ?thesis
    unfolding chunks_rowwise [OF n rowwise] whole using cc by auto
qed

lemma parse_data_opt_clean:
  assumes "\<forall>r \<in> set data. clean_text (opt_text r)"
  shows "parse_data_opt ops data = Inr ps \<longleftrightarrow>
           (\<forall>r \<in> set data. cells_ok_opt ops r) \<and> ps = map (parse_row_opt ops) data"
proof -
  have "strip_categorical ops (map (\<lambda>r. condition_cast (opt_text r)) data) = None"
    by (rule no_new_category) (use assms in \<open>auto simp: clean_text_def\<close>)
  moreover have "strip_categorical ops (map (\<lambda>r. category_cast (opt_text r)) data) = None"
    by (rule no_new_category) (use assms in \<open>auto simp: clean_text_def\<close>)
  ultimately show ?thesis by (simp add: parse_data_opt_Inr)
qed

lemma sum_case_Inr:
  "(case x of Inl e \<Rightarrow> Inl e | Inr p \<Rightarrow> F p) = Inr d \<longleftrightarrow> (\<exists>p. x = Inr p \<and> F p = Inr d)"
  by (cases x) auto

lemma sum_case_equiv:
  assumes "\<And>ps. a = Inr ps \<longleftrightarrow> b = Inr ps"
  shows "(case a of Inl e \<Rightarrow> Inl e | Inr p \<Rightarrow> F p) = Inr d
         \<longleftrightarrow> (case b of Inl e \<Rightarrow> Inl e | Inr p \<Rightarrow> F p) = Inr d"
proof (cases a)
  case (Inl e)
  hence "\<And>ps. b \<noteq> Inr ps" using assms by simp
  then obtain e' where "b = Inl e'" by (cases b) auto
  with Inl show ?thesis by simp
next
  case (Inr ps)
  hence "b = Inr ps" using assms by simp
  with Inr show ?thesis by simp
qed

lemma chunked_core:
  assumes n: "0 < n"
    and rowwise: "\<forall>c. set c \<subseteq> set data \<longrightarrow>
                    (\<forall>ps. f c = Inr ps \<longleftrightarrow> (\<forall>r \<in> set c. ok r) \<and> ps = map g c)"
  shows "(case pool_map f (array_split data n) of
            Inl e \<Rightarrow> Inl e | Inr parts \<Rightarrow> Inr (concat parts)) = Inr ps
         \<longleftrightarrow> f data = Inr ps"
  using chunked_same_rows [OF n rowwise, of ps] by (simp add: sum_case_Inr)

text \<open>
  When no record has a Condition or a Category with white space other than blanks at
  its ends, \<^verbatim>\<open>convert_fbl3n_data_opt\<close> returns the same dataset with and without the
  pool of workers, for every number of workers from 2 on.
\<close>

lemma convert_opt_chunked_equiv:
  assumes n: "2 \<le> n"
    and clean: "\<forall>table. read_table p = Inr table \<longrightarrow>
                  (\<forall>r \<in> set table. clean_text (opt_text (strip_columns r)))"
  shows "convert_fbl3n_data_opt ops read_table p True n = Inr d
         \<longleftrightarrow> convert_fbl3n_data_opt ops read_table p False n = Inr d"
proof (cases "read_table p")
  case (Inl e)
  then show ?thesis by (simp add: convert_fbl3n_data_opt_def)
next
  case (Inr table)
  let ?data = "map strip_columns table"
  have cl: "\<forall>r \<in> set ?data. clean_text (opt_text r)"
    using clean Inr by simp
  have rowwise: "\<forall>c. set c \<subseteq> set ?data \<longrightarrow>
          (\<forall>ps. parse_data_opt ops c = Inr ps
             \<longleftrightarrow> (\<forall>r \<in> set c. cells_ok_opt ops r) \<and> ps = map (parse_row_opt ops) c)"
  proof (intro allI impI)
    fix c ps assume "set c \<subseteq> set ?data"
    with cl have "\<forall>r \<in> set c. clean_text (opt_text r)" by blast
    from parse_data_opt_clean [OF this]
    show "parse_data_opt ops c = Inr ps
             \<longleftrightarrow> (\<forall>r \<in> set c. cells_ok_opt ops r) \<and> ps = map (parse_row_opt ops) c" .
  qed
  have pos: "0 < nat n" using n by simp
  note core = chunked_core [OF pos rowwise]
  show ?thesis
  proof (cases "length table \<le> 1000")
    case True
    then show ?thesis using Inr
      by (simp add: convert_fbl3n_data_opt_def)
  next
    case False
    have T: "convert_fbl3n_data_opt ops read_table p True n
          = (case (case pool_map (parse_data_opt ops) (array_split ?data (nat n)) of
                       Inl e \<Rightarrow> Inl e | Inr parts \<Rightarrow> Inr (concat parts)) of
                 Inl e \<Rightarrow> Inl e
               | Inr parsed \<Rightarrow>
                  (if parsed = [] then Inr None
                   else
                     let fixed = map negate_credit parsed
                     in if \<not> list_all (\<lambda>p. p_document_type p \<noteq> None) fixed then Inl AssertionError
                        else if \<not> list_all (\<lambda>p. p_posting_key p \<noteq> None) fixed then Inl AssertionError
                        else Inr (Some fixed)))"
      using False Inr n by (simp add: convert_fbl3n_data_opt_def)
    have S: "convert_fbl3n_data_opt ops read_table p False n
          = (case parse_data_opt ops ?data of
                 Inl e \<Rightarrow> Inl e
               | Inr parsed \<Rightarrow>
                  (if parsed = [] then Inr None
                   else
                     let fixed = map negate_credit parsed
                     in if \<not> list_all (\<lambda>p. p_document_type p \<noteq> None) fixed then Inl AssertionError
                        else if \<not> list_all (\<lambda>p. p_posting_key p \<noteq> None) fixed then Inl AssertionError
                        else Inr (Some fixed)))"
      using False Inr n by (simp add: convert_fbl3n_data_opt_def)
    show ?thesis unfolding T S by (rule sum_case_equiv) (rule core)
  qed
qed

text \<open>
  The older \<^verbatim>\<open>convert_fbl3n_data\<close> returns the same dataset with and without the pool
  of workers. (When a record does not parse, the single process raises and the pool
  makes the function return \<^verbatim>\<open>None\<close>.)
\<close>

lemma convert_std_chunked_equiv:
  "convert_fbl3n_data ops read_table p True = Inr (Some d)
   \<longleftrightarrow> convert_fbl3n_data ops read_table p False = Inr (Some d)"
proof (cases "read_table p")
  case (Inl e)
  then show ?thesis by (simp add: convert_fbl3n_data_def)
next
  case (Inr data)
  have rowwise: "\<forall>c. set c \<subseteq> set data \<longrightarrow>
          (\<forall>ps. parse_data_std ops c = Inr ps
             \<longleftrightarrow> (\<forall>r \<in> set c. cells_ok_std ops r) \<and> ps = map (parse_row_std ops) c)"
    by (simp add: parse_data_std_Inr)
  have five: "0 < (5::nat)" by simp
  note core = chunked_core [OF five rowwise]
  have parse: "parse_fbl3n_data ops data True = Inr (Some ps)
                 \<longleftrightarrow> parse_fbl3n_data ops data False = Inr (Some ps)" for ps
  proof (cases "length data \<le> 1000")
    case True
    then show ?thesis by (simp add: parse_fbl3n_data_def)
  next
    case False
    have "parse_fbl3n_data ops data True = Inr (Some ps)
          \<longleftrightarrow> (case pool_map (parse_data_std ops) (array_split data 5) of
                 Inl e \<Rightarrow> Inl e | Inr parts \<Rightarrow> Inr (concat parts)) = Inr ps"
      using False
      by (cases "pool_map (parse_data_std ops) (array_split data 5)")
         (simp_all add: parse_fbl3n_data_def)
    also have "\<dots> \<longleftrightarrow> parse_data_std ops data = Inr ps" by (rule core)
    also have "\<dots> \<longleftrightarrow> parse_fbl3n_data ops data False = Inr (Some ps)"
      by (cases "parse_data_std ops data") (simp_all add: parse_fbl3n_data_def)
    finally show ?thesis .
  qed
  have conv: "convert_fbl3n_data ops read_table p m = Inr (Some d) \<longleftrightarrow>
         (\<exists>ps. parse_fbl3n_data ops data m = Inr (Some ps)
            \<and> convert_fbl3n_data ops (\<lambda>q. Inr data) p m = Inr (Some d))" for m
    using Inr
    by (cases "parse_fbl3n_data ops data m")
       (auto simp: convert_fbl3n_data_def split: option.splits)
  have fin: "parse_fbl3n_data ops data True = Inr (Some ps) \<Longrightarrow>
             convert_fbl3n_data ops (\<lambda>q. Inr data) p True
             = convert_fbl3n_data ops (\<lambda>q. Inr data) p False" for ps
    using parse [of ps] by (simp add: convert_fbl3n_data_def)
  show ?thesis
    unfolding conv using parse fin by metis
qed

lemma example_texts_stripped:
  "py_strip text_plain = text_plain" "py_strip text_short = text_short"
  "py_strip text_tab = text_tab" "py_strip ''100'' = ''100''"
  by (simp_all add: py_strip_def strip_with_def is_space_def text_plain_def text_short_def
      text_tab_def)

lemma strip_columns_row:
  "py_strip s = s \<Longrightarrow> strip_columns (row_with_text s) = row_with_text s"
  by (simp add: strip_columns_def row_with_text_def example_texts_stripped)

lemma strip_columns_table: "map strip_columns table_example = table_example"
  by (simp add: table_example_def strip_columns_row example_texts_stripped)

lemma numeral_cell_succeeds: "succeeds (numeral_cell s)"
  by (simp add: numeral_cell_def succeeds_def split: option.splits)

lemma cells_ok_row:
  "cells_ok_opt (pandas_example\<lparr>full_setitem_inplace := b\<rparr>) (row_with_text s)"
  by (simp add: cells_ok_opt_def pandas_example_def numeral_cell_succeeds)
     (simp add: succeeds_def row_with_text_def opt_amount_text_def sap_number_def
        ends_with_minus_def amount_cell_def is_digit_def)

lemma cells_ok_table:
  "set data \<subseteq> set table_example \<Longrightarrow>
     \<forall>r \<in> set data. cells_ok_opt (pandas_example\<lparr>full_setitem_inplace := b\<rparr>) r"
  by (auto simp: table_example_def cells_ok_row)

lemma cast_examples:
  "condition_cast (opt_text (row_with_text text_plain)) = Some ''ZB01''"
  "condition_cast (opt_text (row_with_text text_short)) = None"
  "condition_cast (opt_text (row_with_text text_tab)) = Some (''ZB01'' @ [CHR 0x09])"
  "category_cast (opt_text (row_with_text text_plain)) = Some ''B1''"
  "category_cast (opt_text (row_with_text text_short)) = None"
  "category_cast (opt_text (row_with_text text_tab)) = Some ''B1''"
  by (simp_all add: condition_cast_def category_cast_def opt_text_def row_with_text_def
      blank_to_na_def tokens_of_def token_def has_four_def str_get_def strip_blanks_def
      strip_with_def text_plain_def text_short_def text_tab_def)

lemma strip_examples:
  "py_strip ''ZB01'' = ''ZB01''"
  "py_strip [CHR ''Z'', CHR ''B'', CHR ''0'', CHR ''1'', CHR 0x09] = ''ZB01''"
  "py_strip ''B1'' = ''B1''"
  by (simp_all add: py_strip_def strip_with_def is_space_def)

lemma array_split_table:
  "array_split table_example 2 =
     [replicate 501 (row_with_text text_plain),
      replicate 500 (row_with_text text_short) @ [row_with_text text_tab]]"
proof -
  have two: "replicate 2 (501::nat) = [501, 501]" by (simp add: numeral_2_eq_2)
  show ?thesis
    by (simp add: array_split_def Let_def table_example_def two)
qed


lemma first_errors_ok:
  assumes "\<forall>r \<in> set data. cells_ok_opt ops r"
  shows "first_error (\<lambda>r. to_uint64 ops (r_clearing_document r)) data = None"
    "first_error (\<lambda>r. to_float64 ops (opt_amount_text r)) data = None"
    "first_error (\<lambda>r. to_date ops (r_document_date r)) data = None"
    "first_error (\<lambda>r. to_date ops (r_posting_date r)) data = None"
    "first_error (\<lambda>r. to_uint32 ops (d_customer (derive_opt (opt_text r)))) data = None"
    "first_error (\<lambda>r. to_uint32 ops (d_agreement (derive_opt (opt_text r)))) data = None"
  using assms by (simp_all add: first_error_None cells_ok_opt_def succeeds_ex)

lemma whole_table_categories:
  "strip_categorical ops (map (\<lambda>r. condition_cast (opt_text r)) table_example) = None"
  "strip_categorical ops (map (\<lambda>r. category_cast (opt_text r)) table_example) = None"
  by (simp_all add: strip_categorical_def new_category_def table_example_def cast_examples
      strip_examples)

lemma first_chunk_categories:
  "strip_categorical ops
     (map (\<lambda>r. condition_cast (opt_text r)) (replicate 501 (row_with_text text_plain))) = None"
  "strip_categorical ops
     (map (\<lambda>r. category_cast (opt_text r)) (replicate 501 (row_with_text text_plain))) = None"
  by (simp_all add: strip_categorical_def new_category_def cast_examples strip_examples)

lemma second_chunk_categories:
  "strip_categorical ops
     (map (\<lambda>r. condition_cast (opt_text r))
        (replicate 500 (row_with_text text_short) @ [row_with_text text_tab])) = Some TypeError"
  by (simp add: strip_categorical_def new_category_def cast_examples strip_examples)

lemma negate_credit_row:
  "negate_credit (parse_row_opt ops (row_with_text s)) = parse_row_opt ops (row_with_text s)"
  by (simp add: negate_credit_def parse_row_opt_def row_with_text_def Let_def)

lemma row_required_fields:
  "p_document_type (parse_row_opt ops (row_with_text s)) \<noteq> None"
  "p_posting_key (parse_row_opt ops (row_with_text s)) \<noteq> None"
  by (simp_all add: parse_row_opt_def row_with_text_def Let_def)

text \<open>
  Claim C7. The conversion with the pool of workers does not always give the dataset
  of the single-process conversion. On the table of 1002 records, split for 2 workers
  into the first 501 records and the last 501, the single process returns the parsed
  records, the Condition of the last one stripped of its tab; in the second chunk
  the stripped Condition is not among the categories of the chunk's column, so the
  worker raises a \<^verbatim>\<open>TypeError\<close> and so does the conversion. This holds whichever way
  pandas writes into a column that is selected in full.
\<close>

theorem chunked_conversion_raises:
  "\<forall>b. convert_fbl3n_data_opt (pandas_example\<lparr>full_setitem_inplace := b\<rparr>)
          (\<lambda>file_path. Inr table_example) ''fbl3n.txt'' False 2
        = Inr (Some (map (parse_row_opt (pandas_example\<lparr>full_setitem_inplace := b\<rparr>))
                      table_example))
      \<and> convert_fbl3n_data_opt (pandas_example\<lparr>full_setitem_inplace := b\<rparr>)
          (\<lambda>file_path. Inr table_example) ''fbl3n.txt'' True 2
        = Inl TypeError"
proof
  fix b
  let ?ops = "pandas_example\<lparr>full_setitem_inplace := b\<rparr>"
  let ?c1 = "replicate 501 (row_with_text text_plain)"
  let ?c2 = "replicate 500 (row_with_text text_short) @ [row_with_text text_tab]"
  have len: "length table_example = 1002" by (simp add: table_example_def)
  have ok: "\<forall>r \<in> set table_example. cells_ok_opt ?ops r"
    by (rule cells_ok_table) simp
  have whole: "parse_data_opt ?ops table_example = Inr (map (parse_row_opt ?ops) table_example)"
    using parse_data_opt_Inr [of ?ops table_example "map (parse_row_opt ?ops) table_example"] ok
      whole_table_categories [of ?ops] by blast
  have ne: "map (parse_row_opt ?ops) table_example \<noteq> []"
    by (simp add: table_example_def)
  have neg: "map negate_credit (map (parse_row_opt ?ops) table_example)
             = map (parse_row_opt ?ops) table_example"
    by (simp add: table_example_def negate_credit_row)
  have req: "list_all (\<lambda>p. p_document_type p \<noteq> None) (map (parse_row_opt ?ops) table_example)"
    "list_all (\<lambda>p. p_posting_key p \<noteq> None) (map (parse_row_opt ?ops) table_example)"
    using row_required_fields [of ?ops] by (simp_all add: table_example_def list_all_iff)
  have single: "convert_fbl3n_data_opt ?ops (\<lambda>file_path. Inr table_example) ''fbl3n.txt'' False 2
        = Inr (Some (map (parse_row_opt ?ops) table_example))"
    using ne req
    by (simp add: convert_fbl3n_data_opt_def strip_columns_table whole Let_def neg
        del: map_map)
  have ok1: "\<forall>r \<in> set ?c1. cells_ok_opt ?ops r"
    by (rule cells_ok_table) (simp add: table_example_def)
  have ok2: "\<forall>r \<in> set ?c2. cells_ok_opt ?ops r"
    by (rule cells_ok_table) (auto simp: table_example_def)
  have p1: "parse_data_opt ?ops ?c1 = Inr (map (parse_row_opt ?ops) ?c1)"
    using parse_data_opt_Inr [of ?ops ?c1 "map (parse_row_opt ?ops) ?c1"] ok1
      first_chunk_categories [of ?ops] by blast
  have p2: "parse_data_opt ?ops ?c2 = Inl TypeError"
    unfolding parse_data_opt_def
    by (simp only: first_errors_ok [OF ok2] second_chunk_categories first_some.simps
        option.case)
  have chunked: "convert_fbl3n_data_opt ?ops (\<lambda>file_path. Inr table_example) ''fbl3n.txt'' True 2
        = Inl TypeError"
    by (simp only: convert_fbl3n_data_opt_def strip_columns_table len array_split_table
        sum.case Let_def nat_numeral pool_map.simps p1 p2)
       simp
  from single chunked
  show "convert_fbl3n_data_opt ?ops (\<lambda>file_path. Inr table_example) ''fbl3n.txt'' False 2
        = Inr (Some (map (parse_row_opt ?ops) table_example))
      \<and> convert_fbl3n_data_opt ?ops (\<lambda>file_path. Inr table_example) ''fbl3n.txt'' True 2
        = Inl TypeError" by (rule conjI)
qed

subsection \<open>Export stages that are already complete\<close>

lemma fs10n_accounts_flagged:
  assumes "\<forall>a \<in> set accs. get_state cntry ''fs10n_data_exported'' (Some (AccStr a)) (st_store st)
                            = Inr (Flag (VBool True))"
  shows "fs10n_accounts sap cntry accs st = (Inr True, do_call (Close Fs10n) st)"
  using assms by (induction accs) simp_all

lemma first_truthy_second:
  assumes "succeeds (get_state cntry k1 None w)"
    and "get_state cntry k2 None w = Inr (Flag (VBool True))"
  shows "first_truthy cntry [k1, k2, k3] w = Inr True"
proof -
  from assms(1) obtain v where v: "get_state cntry k1 None w = Inr v"
    by (cases "get_state cntry k1 None w") (auto simp: succeeds_def)
  show ?thesis
    by (cases "truthy v") (simp_all add: first_truthy_def v assms(2))
qed

lemma complete_flags:
  "key \<in> set stage_flags \<Longrightarrow>
     get_state ''Czechia'' key None store_complete = Inr (Flag (VBool True))"
  by (simp add: get_state_def store_complete_def complete_cstate_def)

lemma complete_no_kona:
  "get_state ''Czechia'' ''se16_no_kona_data'' None store_complete = Inr (Flag (VBool False))"
  by (simp add: get_state_def store_complete_def complete_cstate_def stage_flags_def
      account_flags_def default_cstate_def default_flags_def)

lemma complete_accounts:
  "get_state ''Czechia'' ''fs10n_data_exported'' (Some (AccStr (str_int 66791580)))
     store_complete = Inr (Flag (VBool True))"
  by (simp add: get_state_def store_complete_def complete_cstate_def stage_flags_def
      account_flags_def)

lemma run_complete_fields:
  "st_store run_complete = store_complete"
  "st_calls run_complete = []"
  "st_accum run_complete = accum_init(''kote_data'' \<mapsto>
                    Map.empty(''Czechia'' \<mapsto> Leaf (Some [AccStr ''Agreement''])))"
  by (simp_all add: run_complete_def)

lemma rules_cz_country:
  "rules_cz ''Czechia'' = Some \<lparr> company_code = ''1054'', accounts = [AccInt 66791580],
         local_currency = ''CZK'', accountants = [(''accountant@ledvance.com'', True)] \<rparr>"
  by (simp add: rules_cz_def)

text \<open>
  Claim C1 as stated fails for two of the six export stages. With every account of the
  country flagged \<^verbatim>\<open>True\<close>, \<^verbatim>\<open>export_fs10n_data\<close> still starts and closes the FS10N
  transaction in SAP (it exports nothing and writes no flag). And
  \<^verbatim>\<open>export_se16_kona_data\<close>, its flag \<^verbatim>\<open>True\<close>, raises a \<^verbatim>\<open>KeyError\<close> when the
  accumulator holds no KOTE data, because it reads the accumulator before it looks at
  the flag.
\<close>

theorem flagged_export_still_calls_sap:
  "export_fs10n_data rules_cz sap_down ''Czechia'' run_complete
     = (Inr True, run_complete\<lparr>st_calls := [Start Fs10n, Close Fs10n]\<rparr>)
   \<and> flag_set ''Czechia'' ''se16_kona_data_exported'' (run_complete\<lparr>st_accum := accum_init\<rparr>)
   \<and> export_se16_kona_data rules_cz label_ops agreement_column sap_down ''Czechia''
       (run_complete\<lparr>st_accum := accum_init\<rparr>)
     = (Inl (Py KeyError), run_complete\<lparr>st_accum := accum_init\<rparr>)"
proof -
  have fs: "export_fs10n_data rules_cz sap_down ''Czechia'' run_complete
     = (Inr True, run_complete\<lparr>st_calls := [Start Fs10n, Close Fs10n]\<rparr>)"
    by (simp add: export_fs10n_data_def rules_cz_country do_call_def run_complete_fields
        complete_accounts)
  have fl: "flag_set ''Czechia'' ''se16_kona_data_exported'' (run_complete\<lparr>st_accum := accum_init\<rparr>)"
    by (simp add: flag_set_def run_complete_fields complete_flags stage_flags_def)
  have kona: "export_se16_kona_data rules_cz label_ops agreement_column sap_down ''Czechia''
       (run_complete\<lparr>st_accum := accum_init\<rparr>)
     = (Inl (Py KeyError), run_complete\<lparr>st_accum := accum_init\<rparr>)"
    by (simp add: export_se16_kona_data_def rules_cz_country get_from_accum_def bad_account_def
        accum_init_def accum_kinds_def)
  from fs fl kona show ?thesis by blast
qed

text \<open>
  Claim C1, amended. For a country that has rules: when the flag of the stage is
  \<^verbatim>\<open>True\<close>, the exports of FBL3N, SE16 KOTE and ZSD25 local data return \<^verbatim>\<open>True\<close>
  with no call to SAP and the store as it was; so does the export of ZSD25 head-quarter
  data when the flag \<^verbatim>\<open>se16_no_kona_data\<close> can be read, and the export of SE16 KONA
  data when the agreement numbers can be read from the KOTE data in the accumulator.
  With every account flagged \<^verbatim>\<open>True\<close>, the FS10N export returns \<^verbatim>\<open>True\<close> and leaves
  the store as it was, its only calls being the start and the close of the transaction.
  A country flagged \<^verbatim>\<open>reconciled\<close> is skipped by the main loop: no call, no write.
\<close>

theorem flagged_exports_are_skipped:
  assumes "rs cntry = Some r"
  shows
    "(flag_set cntry ''fbl3n_data_exported'' st \<longrightarrow>
        export_fbl3n_data rs sap cntry st = (Inr True, st))
   \<and> (flag_set cntry ''se16_kote_data_exported'' st \<longrightarrow>
        export_se16_kote_data rs sap cntry st = (Inr True, st))
   \<and> (flag_set cntry ''zsd25_loc_data_exported'' st \<longrightarrow>
        export_zsd25_local_data rs sap cntry st = (Inr True, st))
   \<and> (flag_set cntry ''zsd25_glob_data_exported'' st
        \<and> succeeds (get_state cntry ''se16_no_kona_data'' None (st_store st)) \<longrightarrow>
        export_zsd25_global_data rs ops agreement sap cntry st = (Inr True, st))
   \<and> (flag_set cntry ''se16_kona_data_exported'' st
        \<and> get_from_accum ops cntry ''kote_data'' None (st_accum st) = Inr s
        \<and> get_se16_agreements agreement s = Inr g \<longrightarrow>
        export_se16_kona_data rs ops agreement sap cntry st = (Inr True, st))
   \<and> ((\<forall>a \<in> set (accounts r).
          get_state cntry ''fs10n_data_exported'' (Some (AccStr (str_acc a))) (st_store st)
            = Inr (Flag (VBool True))) \<longrightarrow>
        export_fs10n_data rs sap cntry st
          = (Inr True, st\<lparr>st_calls := st_calls st @ [Start Fs10n, Close Fs10n]\<rparr>))
   \<and> (flag_set cntry ''reconciled'' st \<longrightarrow>
        reconcile_country rs ops agreement sap sg cntry st = (Inr Skipped, st))"
proof -
  have fbl3n: "flag_set cntry ''fbl3n_data_exported'' st \<Longrightarrow>
        export_fbl3n_data rs sap cntry st = (Inr True, st)"
    by (simp add: flag_set_def export_fbl3n_data_def)
  have kote: "flag_set cntry ''se16_kote_data_exported'' st \<Longrightarrow>
        export_se16_kote_data rs sap cntry st = (Inr True, st)"
    using assms by (simp add: flag_set_def export_se16_kote_data_def)
  have loc: "flag_set cntry ''zsd25_loc_data_exported'' st \<Longrightarrow>
        export_zsd25_local_data rs sap cntry st = (Inr True, st)"
    using assms by (simp add: flag_set_def export_zsd25_local_data_def)
  have glob: "flag_set cntry ''zsd25_glob_data_exported'' st
        \<and> succeeds (get_state cntry ''se16_no_kona_data'' None (st_store st)) \<Longrightarrow>
        export_zsd25_global_data rs ops agreement sap cntry st = (Inr True, st)"
    using assms
    by (simp add: flag_set_def export_zsd25_global_data_def first_truthy_second)
  have kona: "flag_set cntry ''se16_kona_data_exported'' st
        \<and> get_from_accum ops cntry ''kote_data'' None (st_accum st) = Inr s
        \<and> get_se16_agreements agreement s = Inr g \<Longrightarrow>
        export_se16_kona_data rs ops agreement sap cntry st = (Inr True, st)"
    using assms by (simp add: flag_set_def export_se16_kona_data_def)
  have fs10n: "(\<forall>a \<in> set (accounts r).
          get_state cntry ''fs10n_data_exported'' (Some (AccStr (str_acc a))) (st_store st)
            = Inr (Flag (VBool True))) \<Longrightarrow>
        export_fs10n_data rs sap cntry st
          = (Inr True, st\<lparr>st_calls := st_calls st @ [Start Fs10n, Close Fs10n]\<rparr>)"
  proof -
    assume all: "\<forall>a \<in> set (accounts r).
          get_state cntry ''fs10n_data_exported'' (Some (AccStr (str_acc a))) (st_store st)
            = Inr (Flag (VBool True))"
    hence "\<forall>a \<in> set (map str_acc (accounts r)).
             get_state cntry ''fs10n_data_exported'' (Some (AccStr a))
               (st_store (do_call (Start Fs10n) st)) = Inr (Flag (VBool True))"
      by (simp add: do_call_def)
    from fs10n_accounts_flagged [OF this] show ?thesis
      using assms by (simp add: export_fs10n_data_def do_call_def)
  qed
  have skip: "flag_set cntry ''reconciled'' st \<Longrightarrow>
        reconcile_country rs ops agreement sap sg cntry st = (Inr Skipped, st)"
    by (simp add: flag_set_def reconcile_country_def is_reconciled_def)
  from fbl3n kote loc glob kona fs10n skip show ?thesis by blast
qed

theorem flagged_exports_are_skipped_witness:
  "rules_cz ''Czechia'' \<noteq> None
   \<and> flag_set ''Czechia'' ''fbl3n_data_exported'' run_complete
   \<and> export_fbl3n_data rules_cz sap_down ''Czechia'' run_complete = (Inr True, run_complete)
   \<and> flag_set ''Czechia'' ''se16_kote_data_exported'' run_complete
   \<and> export_se16_kote_data rules_cz sap_down ''Czechia'' run_complete = (Inr True, run_complete)
   \<and> flag_set ''Czechia'' ''zsd25_loc_data_exported'' run_complete
   \<and> export_zsd25_local_data rules_cz sap_down ''Czechia'' run_complete = (Inr True, run_complete)
   \<and> flag_set ''Czechia'' ''zsd25_glob_data_exported'' run_complete
   \<and> export_zsd25_global_data rules_cz label_ops agreement_column sap_down ''Czechia'' run_complete
       = (Inr True, run_complete)
   \<and> flag_set ''Czechia'' ''se16_kona_data_exported'' run_complete
   \<and> export_se16_kona_data rules_cz label_ops agreement_column sap_down ''Czechia'' run_complete
       = (Inr True, run_complete)
   \<and> export_fs10n_data rules_cz sap_down ''Czechia'' run_complete
       = (Inr True, run_complete\<lparr>st_calls := st_calls run_complete @ [Start Fs10n, Close Fs10n]\<rparr>)
   \<and> flag_set ''Czechia'' ''reconciled'' run_complete
   \<and> (\<forall>sg. reconcile_country rules_cz label_ops agreement_column sap_down sg ''Czechia''
              run_complete = (Inr Skipped, run_complete))"
proof -
  have fl: "key \<in> set stage_flags \<Longrightarrow> flag_set ''Czechia'' key run_complete" for key
    by (simp add: flag_set_def run_complete_fields complete_flags)
  have f1: "flag_set ''Czechia'' ''fbl3n_data_exported'' run_complete"
    and f2: "flag_set ''Czechia'' ''se16_kote_data_exported'' run_complete"
    and f3: "flag_set ''Czechia'' ''zsd25_loc_data_exported'' run_complete"
    and f4: "flag_set ''Czechia'' ''zsd25_glob_data_exported'' run_complete"
    and f5: "flag_set ''Czechia'' ''se16_kona_data_exported'' run_complete"
    and f7: "flag_set ''Czechia'' ''reconciled'' run_complete"
    by (rule fl, simp add: stage_flags_def)+
  have nk: "succeeds (get_state ''Czechia'' ''se16_no_kona_data'' None (st_store run_complete))"
    by (simp add: run_complete_fields complete_no_kona succeeds_def)
  have acc: "get_from_accum label_ops ''Czechia'' ''kote_data'' None (st_accum run_complete)
               = Inr (Leaf (Some [AccStr ''Agreement'']))"
    by (simp add: get_from_accum_def bad_account_def run_complete_fields)
  have agr: "get_se16_agreements agreement_column (Leaf (Some [AccStr ''Agreement'']))
               = Inr [AccStr ''Agreement'']"
    by (simp add: get_se16_agreements_def agreement_column_def)
  have r: "rules_cz ''Czechia'' \<noteq> None" by (simp add: rules_cz_country)
  note all = flagged_exports_are_skipped [where rs = rules_cz and cntry = "''Czechia''"
      and st = run_complete and sap = sap_down and ops = label_ops
      and agreement = agreement_column and s = "Leaf (Some [AccStr ''Agreement''])"
      and g = "[AccStr ''Agreement'']", OF rules_cz_country]
  from all f1 have e1: "export_fbl3n_data rules_cz sap_down ''Czechia'' run_complete
      = (Inr True, run_complete)" by blast
  from all f2 have e2: "export_se16_kote_data rules_cz sap_down ''Czechia'' run_complete
      = (Inr True, run_complete)" by blast
  from all f3 have e3: "export_zsd25_local_data rules_cz sap_down ''Czechia'' run_complete
      = (Inr True, run_complete)" by blast
  from all f4 nk have e4: "export_zsd25_global_data rules_cz label_ops agreement_column sap_down
      ''Czechia'' run_complete = (Inr True, run_complete)" by blast
  from all f5 acc agr have e5: "export_se16_kona_data rules_cz label_ops agreement_column sap_down
      ''Czechia'' run_complete = (Inr True, run_complete)" by blast
  have f6: "\<forall>a \<in> set (accounts \<lparr> company_code = ''1054'', accounts = [AccInt 66791580],
         local_currency = ''CZK'', accountants = [(''accountant@ledvance.com'', True)] \<rparr>).
          get_state ''Czechia'' ''fs10n_data_exported'' (Some (AccStr (str_acc a)))
            (st_store run_complete) = Inr (Flag (VBool True))"
    by (simp add: run_complete_fields complete_accounts)
  from all f6 have e6: "export_fs10n_data rules_cz sap_down ''Czechia'' run_complete
       = (Inr True, run_complete\<lparr>st_calls := st_calls run_complete @ [Start Fs10n, Close Fs10n]\<rparr>)"
    by blast
  from all f7 have e7: "\<forall>sg. reconcile_country rules_cz label_ops agreement_column sap_down sg
      ''Czechia'' run_complete = (Inr Skipped, run_complete)" by blast
  from r f1 e1 f2 e2 f3 e3 f4 e4 f5 e5 e6 f7 e7 show ?thesis by blast
qed

end
